theory Spec2Isabelle
  imports Main "HOL-Library.Sublist" "HOL-Library.Word"
begin

unbundle bit_operations_syntax

chapter \<open>The job aggregator of \<^verbatim>\<open>app.py\<close>: model\<close>

section \<open>Python strings\<close>

text \<open>
  A Python \<^verbatim>\<open>str\<close> is modelled as a \<^typ>\<open>string\<close>; a \<^typ>\<open>char\<close> stands for the code point of
  the same number, so the model holds the strings of code points below 256. On these,
  \<^verbatim>\<open>str.lower\<close> adds 32 to \<^verbatim>\<open>A-Z\<close> and to the upper-case letters of the range \<^verbatim>\<open>0xC0-0xDE\<close>
  (the multiplication sign \<^verbatim>\<open>0xD7\<close> apart), and \<^verbatim>\<open>str.strip\<close> removes the characters that
  \<^verbatim>\<open>str.isspace\<close> accepts: \<^verbatim>\<open>0x09-0x0D\<close>, \<^verbatim>\<open>0x1C-0x20\<close>, \<^verbatim>\<open>0x85\<close> and \<^verbatim>\<open>0xA0\<close>. Beyond
  code point 255 \<^verbatim>\<open>str.lower\<close> does not act character by character; the statements below
  are phrased with the code's own tests on the lower-cased string, and where one needs
  \<^verbatim>\<open>lower\<close> to act character by character it says for which strings.
\<close>

definition lower_char :: "char \<Rightarrow> char" where
  "lower_char c =
     (let n = (of_char c :: nat)
      in if (65 \<le> n \<and> n \<le> 90) \<or> (192 \<le> n \<and> n \<le> 222 \<and> n \<noteq> 215)
         then char_of (n + 32) else c)"

definition lower :: "string \<Rightarrow> string" where
  "lower s = map lower_char s"

definition is_space :: "char \<Rightarrow> bool" where
  "is_space c =
     (let n = (of_char c :: nat)
      in (9 \<le> n \<and> n \<le> 13) \<or> (28 \<le> n \<and> n \<le> 32) \<or> n = 133 \<or> n = 160)"

definition lstrip :: "string \<Rightarrow> string" where
  "lstrip s = dropWhile is_space s"

definition rstrip :: "string \<Rightarrow> string" where
  "rstrip s = rev (dropWhile is_space (rev s))"

definition strip :: "string \<Rightarrow> string" where
  "strip s = rstrip (lstrip s)"

text \<open>\<^verbatim>\<open>sub in s\<close> on strings: \<^verbatim>\<open>sub\<close> occurs in \<^verbatim>\<open>s\<close> as a contiguous substring.\<close>

fun py_in :: "string \<Rightarrow> string \<Rightarrow> bool" where
  "py_in sub [] = (sub = [])"
| "py_in sub (c # cs) = (prefix sub (c # cs) \<or> py_in sub cs)"

text \<open>\<^verbatim>\<open>s.replace(old, new)\<close> for a pattern \<^verbatim>\<open>old\<close> of one character, as in every call of
  the source.\<close>

definition str_replace :: "char \<Rightarrow> string \<Rightarrow> string \<Rightarrow> string" where
  "str_replace old new s = concat (map (\<lambda>c. if c = old then new else [c]) s)"

section \<open>Categorization and utility helpers\<close>

definition categorize_job :: "string \<Rightarrow> string" where
  "categorize_job title =
     (let t = lower title
      in if py_in ''intern'' t \<or> py_in ''internship'' t then ''Internship''
         else if py_in ''data'' t \<or> py_in ''analyst'' t then ''Data Science''
         else if py_in ''ai'' t \<or> py_in ''ml'' t \<or> py_in ''machine learning'' t then ''AI/ML''
         else ''Software Engineering'')"

definition slug_for_category :: "string \<Rightarrow> string" where
  "slug_for_category category =
     str_replace CHR '' '' ''-'' (str_replace CHR ''/'' ''-'' (lower category))"

section \<open>Identifier generation\<close>

text \<open>
  \<^verbatim>\<open>hashlib.md5\<close> is the MD5 function of RFC 1321, on bytes; \<^verbatim>\<open>str.encode()\<close> is UTF-8, which
  takes one byte for a code point below 128 and two bytes for one below 256.
\<close>

type_synonym byte = "8 word"
type_synonym u32 = "32 word"

definition encode :: "string \<Rightarrow> byte list" where
  "encode s =
     concat (map (\<lambda>c. let n = (of_char c :: nat)
                      in if n < 128 then [of_nat n]
                         else [of_nat (192 + n div 64), of_nat (128 + n mod 64)]) s)"

definition md5_K :: "u32 list" where
  "md5_K =
    [0xd76aa478, 0xe8c7b756, 0x242070db, 0xc1bdceee, 0xf57c0faf, 0x4787c62a, 0xa8304613, 0xfd469501,
     0x698098d8, 0x8b44f7af, 0xffff5bb1, 0x895cd7be, 0x6b901122, 0xfd987193, 0xa679438e, 0x49b40821,
     0xf61e2562, 0xc040b340, 0x265e5a51, 0xe9b6c7aa, 0xd62f105d, 0x02441453, 0xd8a1e681, 0xe7d3fbc8,
     0x21e1cde6, 0xc33707d6, 0xf4d50d87, 0x455a14ed, 0xa9e3e905, 0xfcefa3f8, 0x676f02d9, 0x8d2a4c8a,
     0xfffa3942, 0x8771f681, 0x6d9d6122, 0xfde5380c, 0xa4beea44, 0x4bdecfa9, 0xf6bb4b60, 0xbebfbc70,
     0x289b7ec6, 0xeaa127fa, 0xd4ef3085, 0x04881d05, 0xd9d4d039, 0xe6db99e5, 0x1fa27cf8, 0xc4ac5665,
     0xf4292244, 0x432aff97, 0xab9423a7, 0xfc93a039, 0x655b59c3, 0x8f0ccc92, 0xffeff47d, 0x85845dd1,
     0x6fa87e4f, 0xfe2ce6e0, 0xa3014314, 0x4e0811a1, 0xf7537e82, 0xbd3af235, 0x2ad7d2bb, 0xeb86d391]"

definition md5_S :: "nat list" where
  "md5_S =
    [7, 12, 17, 22, 7, 12, 17, 22, 7, 12, 17, 22, 7, 12, 17, 22,
     5, 9, 14, 20, 5, 9, 14, 20, 5, 9, 14, 20, 5, 9, 14, 20,
     4, 11, 16, 23, 4, 11, 16, 23, 4, 11, 16, 23, 4, 11, 16, 23,
     6, 10, 15, 21, 6, 10, 15, 21, 6, 10, 15, 21, 6, 10, 15, 21]"

definition rotl32 :: "nat \<Rightarrow> u32 \<Rightarrow> u32" where
  "rotl32 n x = push_bit n x OR drop_bit (32 - n) x"

text \<open>One of the 64 steps on a block \<open>m\<close> of sixteen little-endian words.\<close>

definition md5_round :: "u32 list \<Rightarrow> u32 \<times> u32 \<times> u32 \<times> u32 \<Rightarrow> nat \<Rightarrow> u32 \<times> u32 \<times> u32 \<times> u32" where
  "md5_round m st i =
     (case st of (a, b, c, d) \<Rightarrow>
        let (f, g) =
              (if i < 16 then ((b AND c) OR (NOT b AND d), i)
               else if i < 32 then ((d AND b) OR (NOT d AND c), (5 * i + 1) mod 16)
               else if i < 48 then (b XOR c XOR d, (3 * i + 5) mod 16)
               else (c XOR (b OR NOT d), (7 * i) mod 16));
            f' = f + a + md5_K ! i + m ! g
        in (d, b + rotl32 (md5_S ! i) f', b, c))"

definition le32 :: "byte list \<Rightarrow> u32" where
  "le32 bs = foldr (\<lambda>b acc. push_bit 8 acc OR ucast b) bs 0"

fun chunks :: "nat \<Rightarrow> 'a list \<Rightarrow> 'a list list" where
  "chunks 0 xs = []"
| "chunks (Suc k) xs =
     (if xs = [] then [] else take (Suc k) xs # chunks (Suc k) (drop (Suc k) xs))"

text \<open>Padding: the bit 1, zeros up to 56 modulo 64 bytes, then the length in bits on 64 bits.\<close>

definition md5_pad :: "byte list \<Rightarrow> byte list" where
  "md5_pad msg =
     (let n = length msg
      in msg @ [0x80] @ replicate ((119 - n mod 64) mod 64) 0
           @ map (\<lambda>k. ucast (drop_bit (8 * k) (of_nat (8 * n) :: 64 word))) [0..<8])"

definition md5_block :: "u32 \<times> u32 \<times> u32 \<times> u32 \<Rightarrow> byte list \<Rightarrow> u32 \<times> u32 \<times> u32 \<times> u32" where
  "md5_block st block =
     (case st of (a0, b0, c0, d0) \<Rightarrow>
        case foldl (md5_round (map le32 (chunks 4 block))) st [0..<64] of
          (a, b, c, d) \<Rightarrow> (a0 + a, b0 + b, c0 + c, d0 + d))"

definition bytes_of_u32 :: "u32 \<Rightarrow> byte list" where
  "bytes_of_u32 w = map (\<lambda>k. ucast (drop_bit (8 * k) w)) [0..<4]"

definition md5 :: "byte list \<Rightarrow> byte list" where
  "md5 msg =
     (case foldl md5_block (0x67452301, 0xefcdab89, 0x98badcfe, 0x10325476)
             (chunks 64 (md5_pad msg)) of
        (a, b, c, d) \<Rightarrow> concat (map bytes_of_u32 [a, b, c, d]))"

definition hex_digit :: "nat \<Rightarrow> char" where
  "hex_digit n = ''0123456789abcdef'' ! n"

definition hexdigest :: "byte list \<Rightarrow> string" where
  "hexdigest bs = concat (map (\<lambda>b. [hex_digit (unat b div 16), hex_digit (unat b mod 16)]) bs)"

text \<open>
  \<^verbatim>\<open>combined = f"{source}:{title}:{company}".lower().strip()\<close>, then the first 16 hexadecimal
  digits of its MD5.
\<close>

definition combined :: "string \<Rightarrow> string \<Rightarrow> string \<Rightarrow> string" where
  "combined title company source = strip (lower (source @ '':'' @ title @ '':'' @ company))"

definition generate_job_id :: "string \<Rightarrow> string \<Rightarrow> string \<Rightarrow> string" where
  "generate_job_id title company source =
     take 16 (hexdigest (md5 (encode (combined title company source))))"


section \<open>Exceptions and values\<close>

text \<open>
  A call of the source either returns a value or raises; the model returns \<open>Inl\<close> of the
  exception or \<open>Inr\<close> of the value.
\<close>

datatype py_exn = AttributeError | TypeError | IndexError | KeyError | ValueError | JSONDecodeError

definition ebind :: "py_exn + 'a \<Rightarrow> ('a \<Rightarrow> py_exn + 'b) \<Rightarrow> py_exn + 'b" where
  "ebind m f = (case m of Inl e \<Rightarrow> Inl e | Inr x \<Rightarrow> f x)"

text \<open>
  The values that \<^verbatim>\<open>response.json()\<close> returns. \<^verbatim>\<open>None\<close> is \<open>JNull\<close>; a \<^verbatim>\<open>dict\<close> is the list of
  its items, one for each key, looked up with \<^const>\<open>map_of\<close>. Of a \<^verbatim>\<open>float\<close> the model keeps whether it differs from
  zero: its truth value is all that the source observes of it.
\<close>

datatype json =
    JNull
  | JBool bool
  | JInt int
  | JFloat bool
  | JStr string
  | JArr "json list"
  | JObj "(string \<times> json) list"

text \<open>Truth value of a Python object, as \<^verbatim>\<open>if x\<close>, \<^verbatim>\<open>not x\<close> and \<^verbatim>\<open>x or y\<close> test it.\<close>

fun truthy :: "json \<Rightarrow> bool" where
  "truthy JNull = False"
| "truthy (JBool b) = b"
| "truthy (JInt n) = (n \<noteq> 0)"
| "truthy (JFloat nonzero) = nonzero"
| "truthy (JStr s) = (s \<noteq> [])"
| "truthy (JArr xs) = (xs \<noteq> [])"
| "truthy (JObj kvs) = (kvs \<noteq> [])"

text \<open>\<^verbatim>\<open>a or b\<close>: \<^verbatim>\<open>b\<close> is evaluated only when \<^verbatim>\<open>a\<close> is false.\<close>

definition por :: "py_exn + json \<Rightarrow> py_exn + json \<Rightarrow> py_exn + json" where
  "por a b = (case a of Inl e \<Rightarrow> Inl e | Inr v \<Rightarrow> if truthy v then Inr v else b)"

text \<open>\<^verbatim>\<open>obj.get(key, default)\<close>: only a \<^verbatim>\<open>dict\<close> has the method.\<close>

fun py_get :: "json \<Rightarrow> string \<Rightarrow> json \<Rightarrow> py_exn + json" where
  "py_get (JObj kvs) key dflt = (case map_of kvs key of Some v \<Rightarrow> Inr v | None \<Rightarrow> Inr dflt)"
| "py_get _ key dflt = Inl AttributeError"

text \<open>\<^verbatim>\<open>obj.strip()\<close>: only a \<^verbatim>\<open>str\<close> has the method.\<close>

fun py_strip :: "json \<Rightarrow> py_exn + string" where
  "py_strip (JStr s) = Inr (strip s)"
| "py_strip _ = Inl AttributeError"

text \<open>\<^verbatim>\<open>obj[0]\<close>: the first element of a list, the first character of a string; a \<^verbatim>\<open>dict\<close>
  decoded from JSON has no key \<^verbatim>\<open>0\<close>, and the other values cannot be subscripted.\<close>

fun py_index0 :: "json \<Rightarrow> py_exn + json" where
  "py_index0 (JArr []) = Inl IndexError"
| "py_index0 (JArr (x # xs)) = Inr x"
| "py_index0 (JStr []) = Inl IndexError"
| "py_index0 (JStr (c # cs)) = Inr (JStr [c])"
| "py_index0 (JObj kvs) = Inl KeyError"
| "py_index0 _ = Inl TypeError"

text \<open>\<^verbatim>\<open>for item in obj\<close>: the elements of a list, the characters of a string, the keys of a
  \<^verbatim>\<open>dict\<close>; the other values cannot be iterated.\<close>

fun py_iter :: "json \<Rightarrow> py_exn + json list" where
  "py_iter (JArr xs) = Inr xs"
| "py_iter (JStr s) = Inr (map (\<lambda>c. JStr [c]) s)"
| "py_iter (JObj kvs) = Inr (map JStr (remdups (map fst kvs)))"
| "py_iter _ = Inl TypeError"

text \<open>\<^verbatim>\<open>", ".join(parts)\<close>: every part has to be a \<^verbatim>\<open>str\<close>.\<close>

fun join_strs :: "string \<Rightarrow> string list \<Rightarrow> string" where
  "join_strs sep [] = []"
| "join_strs sep [x] = x"
| "join_strs sep (x # y # ys) = x @ sep @ join_strs sep (y # ys)"

fun as_strs :: "json list \<Rightarrow> py_exn + string list" where
  "as_strs [] = Inr []"
| "as_strs (JStr s # vs) = ebind (as_strs vs) (\<lambda>ss. Inr (s # ss))"
| "as_strs (_ # vs) = Inl TypeError"

definition py_join :: "string \<Rightarrow> json list \<Rightarrow> py_exn + string" where
  "py_join sep parts = ebind (as_strs parts) (\<lambda>ss. Inr (join_strs sep ss))"

definition is_dict :: "json \<Rightarrow> bool" where
  "is_dict v = (case v of JObj kvs \<Rightarrow> True | _ \<Rightarrow> False)"

definition is_list :: "json \<Rightarrow> bool" where
  "is_list v = (case v of JArr xs \<Rightarrow> True | _ \<Rightarrow> False)"

section \<open>Dates\<close>

text \<open>
  A \<^verbatim>\<open>datetime\<close> of the standard library: its fields, and the offset from UTC in microseconds
  when it is aware (\<open>None\<close> when it is naive).
\<close>

record datetime =
  year :: nat
  month :: nat
  day :: nat
  hour :: nat
  minute :: nat
  second :: nat
  microsecond :: nat
  utcoffset :: "int option"

definition datetime_min :: datetime where
  "datetime_min = \<lparr>year = 1, month = 1, day = 1, hour = 0, minute = 0, second = 0,
                    microsecond = 0, utcoffset = None\<rparr>"

text \<open>\<^verbatim>\<open>"%0wd" % n\<close>: the decimal digits of \<open>n\<close>, with zeros in front up to the width \<open>w\<close>.\<close>

definition digit_char :: "nat \<Rightarrow> char" where
  "digit_char n = ''0123456789'' ! n"

fun digits10 :: "nat \<Rightarrow> string" where
  "digits10 n = (if n < 10 then [digit_char n] else digits10 (n div 10) @ [digit_char (n mod 10)])"

declare digits10.simps [simp del]

definition zpad :: "nat \<Rightarrow> nat \<Rightarrow> string" where
  "zpad w n = replicate (w - length (digits10 n)) CHR ''0'' @ digits10 n"

text \<open>
  The offset as \<^verbatim>\<open>isoformat\<close> prints it: sign, hours and minutes, the seconds when the offset
  has seconds or microseconds, the microseconds when it has some.
\<close>

definition format_offset :: "int \<Rightarrow> string" where
  "format_offset off =
     (let a = nat \<bar>off\<bar>;
          hh = a div 3600000000;
          mm = a mod 3600000000 div 60000000;
          ss = a mod 60000000 div 1000000;
          us = a mod 1000000
      in (if off < 0 then ''-'' else ''+'') @ zpad 2 hh @ '':'' @ zpad 2 mm
         @ (if ss \<noteq> 0 \<or> us \<noteq> 0 then '':'' @ zpad 2 ss else [])
         @ (if us \<noteq> 0 then ''.'' @ zpad 6 us else []))"

definition isoformat :: "datetime \<Rightarrow> string" where
  "isoformat dt =
     zpad 4 (year dt) @ ''-'' @ zpad 2 (month dt) @ ''-'' @ zpad 2 (day dt) @ ''T''
     @ zpad 2 (hour dt) @ '':'' @ zpad 2 (minute dt) @ '':'' @ zpad 2 (second dt)
     @ (if microsecond dt \<noteq> 0 then ''.'' @ zpad 6 (microsecond dt) else [])
     @ (case utcoffset dt of None \<Rightarrow> [] | Some off \<Rightarrow> format_offset off)"

text \<open>
  \<^verbatim>\<open>datetime.fromisoformat\<close> is a parameter \<open>fromiso\<close> of the model: the strings it accepts
  depend on the version of the library. It returns the datetime or raises.

  \<^verbatim>\<open>parse_iso_datetime(value)\<close>: the callers pass whatever \<^verbatim>\<open>item.get\<close> returned. A value that
  is not a string has no \<^verbatim>\<open>replace\<close>; the \<^verbatim>\<open>AttributeError\<close> is raised inside the \<^verbatim>\<open>try\<close> and
  caught there as every other exception.
\<close>

definition parse_iso_datetime :: "(string \<Rightarrow> py_exn + datetime) \<Rightarrow> json \<Rightarrow> string" where
  "parse_iso_datetime fromiso v =
     (if \<not> truthy v then []
      else case v of
             JStr s \<Rightarrow>
               (case fromiso (str_replace CHR ''Z'' ''+00:00'' s) of
                  Inr dt \<Rightarrow> isoformat dt
                | Inl e \<Rightarrow> [])
           | _ \<Rightarrow> [])"

text \<open>
  The order of two datetimes, \<^verbatim>\<open>a < b\<close>: field by field when both are naive, by the instant
  when both are aware, and a \<^verbatim>\<open>TypeError\<close> when one is naive and the other aware.
\<close>

definition is_leap :: "nat \<Rightarrow> bool" where
  "is_leap y = (y mod 4 = 0 \<and> (y mod 100 \<noteq> 0 \<or> y mod 400 = 0))"

definition days_before_year :: "nat \<Rightarrow> nat" where
  "days_before_year y = (y - 1) * 365 + (y - 1) div 4 - (y - 1) div 100 + (y - 1) div 400"

definition days_in_month :: "nat \<Rightarrow> nat \<Rightarrow> nat" where
  "days_in_month y m =
     (if m = 2 then (if is_leap y then 29 else 28)
      else if m \<in> {4, 6, 9, 11} then 30 else 31)"

definition days_before_month :: "nat \<Rightarrow> nat \<Rightarrow> nat" where
  "days_before_month y m = sum_list (map (days_in_month y) [1..<m])"

definition ymd2ord :: "nat \<Rightarrow> nat \<Rightarrow> nat \<Rightarrow> nat" where
  "ymd2ord y m d = days_before_year y + days_before_month y m + d"

definition dt_fields :: "datetime \<Rightarrow> nat list" where
  "dt_fields dt = [year dt, month dt, day dt, hour dt, minute dt, second dt, microsecond dt]"

fun lex_less :: "nat list \<Rightarrow> nat list \<Rightarrow> bool" where
  "lex_less (x # xs) (y # ys) = (x < y \<or> (x = y \<and> lex_less xs ys))"
| "lex_less _ _ = False"

definition utc_micros :: "datetime \<Rightarrow> int \<Rightarrow> int" where
  "utc_micros dt off =
     ((int (ymd2ord (year dt) (month dt) (day dt)) * 86400
        + int (hour dt) * 3600 + int (minute dt) * 60 + int (second dt)) * 1000000
      + int (microsecond dt)) - off"

definition dt_less :: "datetime \<Rightarrow> datetime \<Rightarrow> py_exn + bool" where
  "dt_less a b =
     (case (utcoffset a, utcoffset b) of
        (None, None) \<Rightarrow> Inr (lex_less (dt_fields a) (dt_fields b))
      | (Some oa, Some ob) \<Rightarrow> Inr (utc_micros a oa < utc_micros b ob)
      | _ \<Rightarrow> Inl TypeError)"


section \<open>The world outside: configuration and HTTP\<close>

record request =
  req_url :: string
  req_params :: "(string \<times> string) list"
  req_headers :: "(string \<times> string) list"

text \<open>
  A response carries its status code and the value that \<^verbatim>\<open>response.json()\<close> decodes from the
  body, \<open>None\<close> when the body is not JSON.
\<close>

record response =
  status_code :: nat
  body_json :: "json option"

text \<open>
  \<open>env\<close> is the process environment; \<open>http_get\<close> is \<^verbatim>\<open>requests.get\<close> with its ten seconds of
  timeout: \<open>None\<close> when the call raises (connection error, timeout), the response otherwise.
\<close>

record world =
  env :: "string \<Rightarrow> string option"
  http_get :: "request \<Rightarrow> response option"

definition getenv :: "world \<Rightarrow> string \<Rightarrow> string \<Rightarrow> string" where
  "getenv w key dflt = (case env w key of None \<Rightarrow> dflt | Some v \<Rightarrow> v)"

text \<open>\<^verbatim>\<open>not os.getenv(key)\<close>: the variable is absent or empty.\<close>

definition unset :: "string option \<Rightarrow> bool" where
  "unset v = (case v of None \<Rightarrow> True | Some s \<Rightarrow> s = [])"

text \<open>\<^verbatim>\<open>response.raise_for_status()\<close> raises on the client and server error codes.\<close>

definition raise_for_status :: "response \<Rightarrow> bool" where
  "raise_for_status r = (400 \<le> status_code r \<and> status_code r < 600)"

text \<open>
  The \<^verbatim>\<open>try\<close> block of every adapter: the request and the status check. \<open>None\<close> is the
  \<^verbatim>\<open>except\<close> branch.
\<close>

definition try_get :: "world \<Rightarrow> request \<Rightarrow> response option" where
  "try_get w req =
     (case http_get w req of
        None \<Rightarrow> None
      | Some r \<Rightarrow> if raise_for_status r then None else Some r)"

definition response_json :: "response \<Rightarrow> py_exn + json" where
  "response_json r = (case body_json r of None \<Rightarrow> Inl JSONDecodeError | Some v \<Rightarrow> Inr v)"

section \<open>The job record\<close>

record job =
  job_id :: string
  job_title :: string
  job_company :: string
  job_location :: string
  job_url :: string
  job_category :: string
  job_source :: string
  job_published :: string

text \<open>
  The tail of every adapter's loop body: the identifier, the date, the category and the
  dictionary appended to \<^verbatim>\<open>jobs\<close>. \<open>raw\<close> is the provider's date field.
\<close>

definition make_job ::
  "(string \<Rightarrow> py_exn + datetime) \<Rightarrow> string \<Rightarrow> string \<Rightarrow> string \<Rightarrow> string \<Rightarrow> string \<Rightarrow> json \<Rightarrow> job" where
  "make_job fromiso source title company location url raw =
     \<lparr>job_id = generate_job_id title company source,
      job_title = title,
      job_company = company,
      job_location = location,
      job_url = url,
      job_category = categorize_job title,
      job_source = source,
      job_published = parse_iso_datetime fromiso raw\<rparr>"

text \<open>
  The loop \<^verbatim>\<open>for item in items\<close>: the body returns \<open>None\<close> where it runs into \<^verbatim>\<open>continue\<close>, the
  record where it appends one; an exception of the body ends the loop and the adapter.
\<close>

fun for_items :: "(json \<Rightarrow> py_exn + job option) \<Rightarrow> json list \<Rightarrow> py_exn + job list" where
  "for_items f [] = Inr []"
| "for_items f (item # items) =
     ebind (f item) (\<lambda>r. ebind (for_items f items) (\<lambda>jobs.
       Inr (case r of None \<Rightarrow> jobs | Some j \<Rightarrow> j # jobs)))"

text \<open>An adapter returns the requests it has issued and its result.\<close>

type_synonym 'a io = "request list \<times> (py_exn + 'a)"

definition io_bind :: "'a io \<Rightarrow> ('a \<Rightarrow> 'b io) \<Rightarrow> 'b io" where
  "io_bind m f =
     (case m of
        (calls, Inl e) \<Rightarrow> (calls, Inl e)
      | (calls, Inr x) \<Rightarrow> (case f x of (calls', r) \<Rightarrow> (calls @ calls', r)))"

text \<open>
  What follows the \<^verbatim>\<open>try\<close> block in every adapter: decode the body, find the listing, run the
  loop.
\<close>

definition listing ::
  "response \<Rightarrow> (json \<Rightarrow> py_exn + json) \<Rightarrow> (json \<Rightarrow> py_exn + job option) \<Rightarrow> py_exn + job list" where
  "listing resp find_items body =
     ebind (response_json resp) (\<lambda>payload.
     ebind (find_items payload) (\<lambda>items.
     ebind (py_iter items) (for_items body)))"

section \<open>Provider adapters\<close>

subsection \<open>Remotive\<close>

definition remotive_item :: "(string \<Rightarrow> py_exn + datetime) \<Rightarrow> json \<Rightarrow> py_exn + job option" where
  "remotive_item fromiso item =
     (if \<not> is_dict item then Inr None
      else
        ebind (ebind (por (py_get item ''title'' JNull) (Inr (JStr []))) py_strip) (\<lambda>title.
        ebind (ebind (por (py_get item ''company_name'' JNull)
                     (por (py_get item ''company'' JNull) (Inr (JStr [])))) py_strip) (\<lambda>company.
        ebind (ebind (por (py_get item ''candidate_required_location'' JNull)
                     (por (py_get item ''location'' JNull) (Inr (JStr ''Remote'')))) py_strip) (\<lambda>location.
        ebind (ebind (por (py_get item ''url'' JNull)
                     (por (py_get item ''job_url'' JNull) (Inr (JStr [])))) py_strip) (\<lambda>url.
        if title = [] \<or> company = [] \<or> url = [] then Inr None
        else
          ebind (por (py_get item ''publication_date'' JNull) (py_get item ''published_at'' JNull))
            (\<lambda>raw. Inr (Some (make_job fromiso ''Remotive'' title company location url raw))))))))"

definition remotive_request :: request where
  "remotive_request =
     \<lparr>req_url = ''https://remotive.com/api/remote-jobs'', req_params = [], req_headers = []\<rparr>"

definition remotive_items :: "json \<Rightarrow> py_exn + json" where
  "remotive_items payload =
     por (py_get payload ''jobs'' (JArr []))
         (Inr (if is_list payload then payload else JArr []))"

definition fetch_remotive_jobs :: "(string \<Rightarrow> py_exn + datetime) \<Rightarrow> world \<Rightarrow> job list io" where
  "fetch_remotive_jobs fromiso w =
     (case try_get w remotive_request of
        None \<Rightarrow> ([remotive_request], Inr [])
      | Some resp \<Rightarrow>
          ([remotive_request], listing resp remotive_items (remotive_item fromiso)))"

subsection \<open>Adzuna\<close>

definition adzuna_item :: "(string \<Rightarrow> py_exn + datetime) \<Rightarrow> json \<Rightarrow> py_exn + job option" where
  "adzuna_item fromiso item =
     ebind (ebind (por (py_get item ''title'' JNull) (Inr (JStr []))) py_strip) (\<lambda>title.
     ebind (ebind
        (por (ebind (py_get item ''company'' (JObj [])) (\<lambda>c. py_get c ''display_name'' JNull))
        (por (ebind (py_get item ''company'' (JObj [])) (\<lambda>c. py_get c ''name'' JNull))
             (Inr (JStr [])))) py_strip) (\<lambda>company.
     ebind (ebind
        (por (ebind (py_get item ''location'' (JObj [])) (\<lambda>l. py_get l ''display_name'' JNull))
        (por (ebind (ebind (py_get item ''location'' (JObj []))
                       (\<lambda>l. py_get l ''area'' (JArr [JStr []]))) py_index0)
             (Inr (JStr ''Remote'')))) py_strip) (\<lambda>location.
     ebind (ebind (por (py_get item ''redirect_url'' JNull)
                  (por (py_get item ''url'' JNull) (Inr (JStr [])))) py_strip) (\<lambda>url.
     if title = [] \<or> company = [] \<or> url = [] then Inr None
     else
       ebind (py_get item ''created'' JNull)
         (\<lambda>raw. Inr (Some (make_job fromiso ''Adzuna'' title company location url raw)))))))"

definition adzuna_request :: "world \<Rightarrow> request" where
  "adzuna_request w =
     \<lparr>req_url = ''https://api.adzuna.com/v1/api/jobs/'' @ getenv w ''ADZUNA_COUNTRY'' ''us''
                 @ ''/search/1'',
      req_params =
        [(''app_id'', getenv w ''ADZUNA_APP_ID'' []),
         (''app_key'', getenv w ''ADZUNA_APP_KEY'' []),
         (''results_per_page'', ''50''),
         (''what'', ''software engineer OR developer OR data scientist OR machine learning''),
         (''content-type'', ''application/json'')],
      req_headers = []\<rparr>"

definition results_items :: "string \<Rightarrow> json \<Rightarrow> py_exn + json" where
  "results_items key payload = por (py_get payload key (JArr [])) (Inr (JArr []))"

definition fetch_adzuna_jobs :: "(string \<Rightarrow> py_exn + datetime) \<Rightarrow> world \<Rightarrow> job list io" where
  "fetch_adzuna_jobs fromiso w =
     (if unset (env w ''ADZUNA_APP_ID'') \<or> unset (env w ''ADZUNA_APP_KEY'') then ([], Inr [])
      else case try_get w (adzuna_request w) of
             None \<Rightarrow> ([adzuna_request w], Inr [])
           | Some resp \<Rightarrow>
               ([adzuna_request w], listing resp (results_items ''results'') (adzuna_item fromiso)))"

subsection \<open>JSearch\<close>

definition jsearch_item :: "(string \<Rightarrow> py_exn + datetime) \<Rightarrow> json \<Rightarrow> py_exn + job option" where
  "jsearch_item fromiso item =
     ebind (ebind (por (py_get item ''job_title'' JNull) (Inr (JStr []))) py_strip) (\<lambda>title.
     ebind (ebind (por (py_get item ''employer_name'' JNull) (Inr (JStr []))) py_strip) (\<lambda>company.
     ebind (py_get item ''job_city'' JNull) (\<lambda>city.
     ebind (py_get item ''job_state'' JNull) (\<lambda>state.
     ebind (py_get item ''job_country'' JNull) (\<lambda>country.
     let location_parts = filter truthy [city, state, country]
     in ebind (if location_parts \<noteq> [] then py_join '', '' location_parts else Inr ''Remote'')
          (\<lambda>joined.
     let location = strip joined
     in ebind (ebind (por (py_get item ''job_apply_link'' JNull)
                     (por (py_get item ''job_url'' JNull) (Inr (JStr [])))) py_strip) (\<lambda>url.
     if title = [] \<or> company = [] \<or> url = [] then Inr None
     else
       ebind (por (py_get item ''job_posted_at_datetime_utc'' JNull)
                  (py_get item ''job_posted_at'' JNull))
         (\<lambda>raw. Inr (Some (make_job fromiso ''JSearch'' title company location url raw))))))))))"

definition jsearch_request :: "world \<Rightarrow> request" where
  "jsearch_request w =
     \<lparr>req_url = ''https://jsearch.p.rapidapi.com/search'',
      req_params =
        [(''query'', ''software developer OR data scientist OR machine learning engineer''),
         (''page'', ''1''),
         (''num_pages'', ''1''),
         (''date_posted'', ''month'')],
      req_headers =
        [(''X-RapidAPI-Key'', getenv w ''RAPIDAPI_KEY'' []),
         (''X-RapidAPI-Host'', getenv w ''JSEARCH_RAPIDAPI_HOST'' ''jsearch.p.rapidapi.com'')]\<rparr>"

definition fetch_jsearch_jobs :: "(string \<Rightarrow> py_exn + datetime) \<Rightarrow> world \<Rightarrow> job list io" where
  "fetch_jsearch_jobs fromiso w =
     (if unset (env w ''RAPIDAPI_KEY'') then ([], Inr [])
      else case try_get w (jsearch_request w) of
             None \<Rightarrow> ([jsearch_request w], Inr [])
           | Some resp \<Rightarrow>
               ([jsearch_request w], listing resp (results_items ''data'') (jsearch_item fromiso)))"

subsection \<open>Careerjet\<close>

definition careerjet_item :: "(string \<Rightarrow> py_exn + datetime) \<Rightarrow> json \<Rightarrow> py_exn + job option" where
  "careerjet_item fromiso item =
     ebind (ebind (por (py_get item ''title'' JNull) (Inr (JStr []))) py_strip) (\<lambda>title.
     ebind (ebind (por (py_get item ''company'' JNull) (Inr (JStr []))) py_strip) (\<lambda>company.
     ebind (ebind (por (py_get item ''locations'' JNull)
                  (por (py_get item ''location'' JNull) (Inr (JStr ''Remote'')))) py_strip) (\<lambda>location.
     ebind (ebind (por (py_get item ''url'' JNull)
                  (por (py_get item ''site'' JNull) (Inr (JStr [])))) py_strip) (\<lambda>url.
     if title = [] \<or> company = [] \<or> url = [] then Inr None
     else
       ebind (py_get item ''date'' JNull)
         (\<lambda>raw. Inr (Some (make_job fromiso ''Careerjet'' title company location url raw)))))))"

definition careerjet_request :: "world \<Rightarrow> request" where
  "careerjet_request w =
     \<lparr>req_url = ''https://public.api.careerjet.net/search'',
      req_params =
        [(''affid'', getenv w ''CAREERJET_AFFID'' []),
         (''locale_code'', getenv w ''CAREERJET_LOCALE'' ''en_US''),
         (''keywords'', ''software engineer OR developer OR data scientist OR machine learning''),
         (''pagesize'', ''50''),
         (''page'', ''1'')]
        @ (if getenv w ''CAREERJET_LOCATION'' [] \<noteq> []
           then [(''location'', getenv w ''CAREERJET_LOCATION'' [])] else []),
      req_headers = []\<rparr>"

definition fetch_careerjet_jobs :: "(string \<Rightarrow> py_exn + datetime) \<Rightarrow> world \<Rightarrow> job list io" where
  "fetch_careerjet_jobs fromiso w =
     (if unset (env w ''CAREERJET_AFFID'') then ([], Inr [])
      else case try_get w (careerjet_request w) of
             None \<Rightarrow> ([careerjet_request w], Inr [])
           | Some resp \<Rightarrow>
               ([careerjet_request w], listing resp (results_items ''jobs'') (careerjet_item fromiso)))"

subsection \<open>The Muse\<close>

definition themuse_item :: "(string \<Rightarrow> py_exn + datetime) \<Rightarrow> json \<Rightarrow> py_exn + job option" where
  "themuse_item fromiso item =
     ebind (ebind (por (py_get item ''name'' JNull) (Inr (JStr []))) py_strip) (\<lambda>title.
     ebind (py_get item ''company'' (JObj [])) (\<lambda>company_obj.
     ebind (ebind (por (py_get company_obj ''name'' JNull) (Inr (JStr []))) py_strip) (\<lambda>company.
     ebind (py_get item ''locations'' (JArr [])) (\<lambda>locations.
     ebind (ebind (if truthy locations
                   then ebind (py_index0 locations) (\<lambda>first. py_get first ''name'' (JStr ''Remote''))
                   else Inr (JStr ''Remote'')) py_strip) (\<lambda>location.
     ebind (ebind (por (ebind (py_get item ''refs'' (JObj []))
                          (\<lambda>refs. py_get refs ''landing_page'' JNull))
                       (Inr (JStr []))) py_strip) (\<lambda>url.
     if title = [] \<or> company = [] \<or> url = [] then Inr None
     else
       ebind (py_get item ''publication_date'' JNull)
         (\<lambda>raw. Inr (Some (make_job fromiso ''TheMuse'' title company location url raw)))))))))"

definition themuse_request :: "world \<Rightarrow> request" where
  "themuse_request w =
     \<lparr>req_url = ''https://www.themuse.com/api/public/jobs'',
      req_params =
        [(''api_key'', getenv w ''THEMUSE_API_KEY'' []),
         (''page'', ''1''),
         (''category'', ''Software Engineering,Data Science,Engineering''),
         (''location'', [])],
      req_headers = []\<rparr>"

definition fetch_themuse_jobs :: "(string \<Rightarrow> py_exn + datetime) \<Rightarrow> world \<Rightarrow> job list io" where
  "fetch_themuse_jobs fromiso w =
     (if unset (env w ''THEMUSE_API_KEY'') then ([], Inr [])
      else case try_get w (themuse_request w) of
             None \<Rightarrow> ([themuse_request w], Inr [])
           | Some resp \<Rightarrow>
               ([themuse_request w], listing resp (results_items ''results'') (themuse_item fromiso)))"

subsection \<open>USAJobs\<close>

text \<open>\<^verbatim>\<open>xs[0] if xs else default\<close>.\<close>

definition first_or :: "json \<Rightarrow> json \<Rightarrow> py_exn + json" where
  "first_or xs dflt = (if truthy xs then py_index0 xs else Inr dflt)"

definition usajobs_item :: "(string \<Rightarrow> py_exn + datetime) \<Rightarrow> json \<Rightarrow> py_exn + job option" where
  "usajobs_item fromiso item =
     ebind (py_get item ''MatchedObjectDescriptor'' (JObj [])) (\<lambda>matched_obj.
     ebind (ebind (por (py_get matched_obj ''PositionTitle'' JNull) (Inr (JStr []))) py_strip) (\<lambda>title.
     ebind (py_get matched_obj ''OrganizationCodes'' (JArr [])) (\<lambda>org_codes.
     ebind (ebind (first_or org_codes (JStr ''US Government'')) py_strip) (\<lambda>company.
     ebind (py_get matched_obj ''PositionLocationDisplay'' (JArr [])) (\<lambda>position_locations.
     ebind (ebind (first_or position_locations (JStr ''Remote'')) py_strip) (\<lambda>location.
     ebind (py_get matched_obj ''PositionURI'' (JArr [])) (\<lambda>position_urls.
     ebind (ebind (first_or position_urls (JStr [])) py_strip) (\<lambda>url.
     if title = [] \<or> url = [] then Inr None
     else
       ebind (py_get matched_obj ''PublicationStartDate'' JNull)
         (\<lambda>raw. Inr (Some (make_job fromiso ''USAJobs'' title company location url raw)))))))))))"

definition usajobs_request :: "world \<Rightarrow> request" where
  "usajobs_request w =
     \<lparr>req_url = ''https://data.usajobs.gov/api/Search'',
      req_params =
        [(''Keyword'',
          ''software engineer OR developer OR data scientist OR information technology''),
         (''ResultsPerPage'', ''50''),
         (''Page'', ''1'')],
      req_headers =
        [(''User-Agent'', getenv w ''USAJOBS_EMAIL'' ''user@example.com''),
         (''Host'', ''data.usajobs.gov'')]
        @ (if unset (env w ''USAJOBS_API_KEY'') then []
           else [(''Authorization-Key'', getenv w ''USAJOBS_API_KEY'' [])])\<rparr>"

definition usajobs_items :: "json \<Rightarrow> py_exn + json" where
  "usajobs_items payload =
     ebind (py_get payload ''SearchResult'' (JObj [])) (\<lambda>search_result.
       por (py_get search_result ''SearchResultItems'' (JArr [])) (Inr (JArr [])))"

definition fetch_usajobs :: "(string \<Rightarrow> py_exn + datetime) \<Rightarrow> world \<Rightarrow> job list io" where
  "fetch_usajobs fromiso w =
     (case try_get w (usajobs_request w) of
        None \<Rightarrow> ([usajobs_request w], Inr [])
      | Some resp \<Rightarrow>
          ([usajobs_request w], listing resp usajobs_items (usajobs_item fromiso)))"

section \<open>Job normalization and aggregation\<close>

text \<open>The deduplication loop, with its set \<^verbatim>\<open>seen\<close> of keys.\<close>

definition dedup_key :: "job \<Rightarrow> string \<times> string" where
  "dedup_key j = (strip (lower (job_title j)), strip (lower (job_company j)))"

fun dedup_loop :: "(string \<times> string) set \<Rightarrow> job list \<Rightarrow> job list" where
  "dedup_loop seen [] = []"
| "dedup_loop seen (j # jobs) =
     (if dedup_key j \<in> seen then dedup_loop seen jobs
      else j # dedup_loop (insert (dedup_key j) seen) jobs)"

definition dedup :: "job list \<Rightarrow> job list" where
  "dedup jobs = dedup_loop {} jobs"

definition sort_key :: "(string \<Rightarrow> py_exn + datetime) \<Rightarrow> job \<Rightarrow> datetime" where
  "sort_key fromiso j =
     (let published = job_published j
      in if published = [] then datetime_min
         else case fromiso (str_replace CHR ''Z'' ''+00:00'' published) of
                Inr dt \<Rightarrow> dt
              | Inl e \<Rightarrow> datetime_min)"

text \<open>
  \<^verbatim>\<open>list.sort(key=sort_key, reverse=True)\<close>: the keys are computed first; the result is in
  descending order of the keys and the records with equal keys keep their order. The sort
  compares keys with \<^verbatim>\<open><\<close> only, and the exception of a comparison leaves the sort. The model
  is the insertion sort that puts a record before the first one whose key is not greater.
\<close>

fun insort_desc :: "datetime \<times> job \<Rightarrow> (datetime \<times> job) list \<Rightarrow> py_exn + (datetime \<times> job) list" where
  "insort_desc x [] = Inr [x]"
| "insort_desc x (y # ys) =
     ebind (dt_less (fst x) (fst y)) (\<lambda>lt.
       if lt then ebind (insort_desc x ys) (\<lambda>r. Inr (y # r)) else Inr (x # y # ys))"

fun sort_desc :: "(datetime \<times> job) list \<Rightarrow> py_exn + (datetime \<times> job) list" where
  "sort_desc [] = Inr []"
| "sort_desc (x # xs) = ebind (sort_desc xs) (insort_desc x)"

definition sort_jobs :: "(string \<Rightarrow> py_exn + datetime) \<Rightarrow> job list \<Rightarrow> py_exn + job list" where
  "sort_jobs fromiso jobs =
     ebind (sort_desc (map (\<lambda>j. (sort_key fromiso j, j)) jobs)) (\<lambda>r. Inr (map snd r))"

text \<open>\<^verbatim>\<open>xs[:limit]\<close>: a negative \<^verbatim>\<open>limit\<close> counts from the end.\<close>

definition slice_to :: "'a list \<Rightarrow> int \<Rightarrow> 'a list" where
  "slice_to xs limit =
     (if 0 \<le> limit then take (nat limit) xs else take (length xs - nat (- limit)) xs)"

text \<open>What \<^verbatim>\<open>normalize_jobs\<close> does with the merged list: deduplicate, sort, truncate.\<close>

definition rank_jobs :: "(string \<Rightarrow> py_exn + datetime) \<Rightarrow> job list \<Rightarrow> int \<Rightarrow> py_exn + job list" where
  "rank_jobs fromiso jobs limit =
     ebind (sort_jobs fromiso (dedup jobs)) (\<lambda>unique_jobs. Inr (slice_to unique_jobs limit))"

text \<open>\<^verbatim>\<open>normalize_jobs(limit=50)\<close>: the argument is \<open>None\<close> when the caller leaves it out.\<close>

definition normalize_jobs :: "(string \<Rightarrow> py_exn + datetime) \<Rightarrow> world \<Rightarrow> int option \<Rightarrow> job list io" where
  "normalize_jobs fromiso w limit_arg =
     (let limit = (case limit_arg of None \<Rightarrow> 50 | Some l \<Rightarrow> l)
      in io_bind (fetch_remotive_jobs fromiso w) (\<lambda>remotive_jobs.
         io_bind (fetch_adzuna_jobs fromiso w) (\<lambda>adzuna_jobs.
         io_bind (fetch_jsearch_jobs fromiso w) (\<lambda>jsearch_jobs.
         io_bind (fetch_careerjet_jobs fromiso w) (\<lambda>careerjet_jobs.
         io_bind (fetch_themuse_jobs fromiso w) (\<lambda>themuse_jobs.
         io_bind (fetch_usajobs fromiso w) (\<lambda>usajobs_jobs.
           ([], rank_jobs fromiso
                  (remotive_jobs @ adzuna_jobs @ jsearch_jobs @ careerjet_jobs
                     @ themuse_jobs @ usajobs_jobs) limit))))))))"


section \<open>An instance of the date parser\<close>

text \<open>
  For the examples the parameter \<open>fromiso\<close> is instantiated with the parser of the layouts
  that \<^verbatim>\<open>isoformat\<close> prints: \<^verbatim>\<open>YYYY-MM-DD\<close>, then optionally one separator character and
  \<^verbatim>\<open>HH:MM:SS\<close>, an optional \<^verbatim>\<open>.ffffff\<close> and an optional offset \<^verbatim>\<open>+HH:MM\<close> or \<^verbatim>\<open>-HH:MM\<close>. It
  rejects every other string; \<^verbatim>\<open>datetime.fromisoformat\<close> returns the same datetime on the
  strings it accepts.
\<close>

definition digit_val :: "char \<Rightarrow> nat option" where
  "digit_val c =
     (let n = (of_char c :: nat) in if 48 \<le> n \<and> n \<le> 57 then Some (n - 48) else None)"

definition num :: "string \<Rightarrow> nat option" where
  "num s =
     (if s = [] then None
      else foldl (\<lambda>acc c. case (acc, digit_val c) of
                            (Some a, Some v) \<Rightarrow> Some (10 * a + v)
                          | _ \<Rightarrow> None) (Some 0) s)"

definition parse_date :: "string \<Rightarrow> ((nat \<times> nat \<times> nat) \<times> string) option" where
  "parse_date s =
     (if length s < 10 \<or> s ! 4 \<noteq> CHR ''-'' \<or> s ! 7 \<noteq> CHR ''-'' then None
      else case (num (take 4 s), num (take 2 (drop 5 s)), num (take 2 (drop 8 s))) of
             (Some y, Some m, Some d) \<Rightarrow> Some ((y, m, d), drop 10 s)
           | _ \<Rightarrow> None)"

definition parse_hms :: "string \<Rightarrow> ((nat \<times> nat \<times> nat) \<times> string) option" where
  "parse_hms s =
     (if length s < 8 \<or> s ! 2 \<noteq> CHR '':'' \<or> s ! 5 \<noteq> CHR '':'' then None
      else case (num (take 2 s), num (take 2 (drop 3 s)), num (take 2 (drop 6 s))) of
             (Some h, Some m, Some sec) \<Rightarrow> Some ((h, m, sec), drop 8 s)
           | _ \<Rightarrow> None)"

definition parse_fraction :: "string \<Rightarrow> (nat \<times> string) option" where
  "parse_fraction s =
     (if take 1 s \<noteq> ''.'' then Some (0, s)
      else if length s < 7 then None
      else case num (take 6 (drop 1 s)) of
             Some us \<Rightarrow> Some (us, drop 7 s)
           | None \<Rightarrow> None)"

definition parse_offset :: "string \<Rightarrow> int option option" where
  "parse_offset s =
     (if s = [] then Some None
      else if length s \<noteq> 6 \<or> (s ! 0 \<noteq> CHR ''+'' \<and> s ! 0 \<noteq> CHR ''-'') \<or> s ! 3 \<noteq> CHR '':''
      then None
      else case (num (take 2 (drop 1 s)), num (take 2 (drop 4 s))) of
             (Some h, Some m) \<Rightarrow>
               if h < 24 \<and> m < 60
               then Some (Some ((if s ! 0 = CHR ''-'' then - 1 else 1)
                                * (int h * 3600000000 + int m * 60000000)))
               else None
           | _ \<Rightarrow> None)"

definition valid_fields :: "nat \<Rightarrow> nat \<Rightarrow> nat \<Rightarrow> nat \<Rightarrow> nat \<Rightarrow> nat \<Rightarrow> bool" where
  "valid_fields y m d h mi s =
     (1 \<le> y \<and> y \<le> 9999 \<and> 1 \<le> m \<and> m \<le> 12 \<and> 1 \<le> d \<and> d \<le> days_in_month y m
      \<and> h < 24 \<and> mi < 60 \<and> s < 60)"

definition fromisoformat_basic :: "string \<Rightarrow> py_exn + datetime" where
  "fromisoformat_basic s =
     (case parse_date s of
        None \<Rightarrow> Inl ValueError
      | Some ((y, m, d), rest) \<Rightarrow>
          (case rest of
             [] \<Rightarrow>
               if valid_fields y m d 0 0 0
               then Inr \<lparr>year = y, month = m, day = d, hour = 0, minute = 0, second = 0,
                         microsecond = 0, utcoffset = None\<rparr>
               else Inl ValueError
           | sep # t \<Rightarrow>
               (case parse_hms t of
                  None \<Rightarrow> Inl ValueError
                | Some ((h, mi, sec), t1) \<Rightarrow>
                    (case parse_fraction t1 of
                       None \<Rightarrow> Inl ValueError
                     | Some (us, t2) \<Rightarrow>
                         (case parse_offset t2 of
                            None \<Rightarrow> Inl ValueError
                          | Some off \<Rightarrow>
                              if valid_fields y m d h mi sec
                              then Inr \<lparr>year = y, month = m, day = d, hour = h, minute = mi,
                                        second = sec, microsecond = us, utcoffset = off\<rparr>
                              else Inl ValueError)))))"


text \<open>The datetimes that \<^const>\<open>fromisoformat_basic\<close> returns.\<close>

definition valid_dt :: "datetime \<Rightarrow> bool" where
  "valid_dt dt =
     (valid_fields (year dt) (month dt) (day dt) (hour dt) (minute dt) (second dt)
      \<and> microsecond dt < 1000000
      \<and> (case utcoffset dt of
            None \<Rightarrow> True
          | Some off \<Rightarrow> \<bar>off\<bar> < 86400000000 \<and> \<bar>off\<bar> mod 60000000 = 0))"

section \<open>The specification's date rule\<close>

text \<open>
  The wording of the specification, to compare with \<^const>\<open>parse_iso_datetime\<close>: an absent or
  empty input gives the empty string; otherwise a trailing \<^verbatim>\<open>Z\<close> is replaced by \<^verbatim>\<open>+00:00\<close>, the
  string is parsed, and the result is the normalized form or, when the parse fails, the empty
  string. The input is an optional string.
\<close>

definition replace_trailing_Z :: "string \<Rightarrow> string" where
  "replace_trailing_Z s = (if s \<noteq> [] \<and> last s = CHR ''Z'' then butlast s @ ''+00:00'' else s)"

definition parse_iso_datetime_spec :: "(string \<Rightarrow> py_exn + datetime) \<Rightarrow> string option \<Rightarrow> string" where
  "parse_iso_datetime_spec fromiso v =
     (case v of
        None \<Rightarrow> []
      | Some s \<Rightarrow>
          if s = [] then []
          else case fromiso (replace_trailing_Z s) of
                 Inr dt \<Rightarrow> isoformat dt
               | Inl e \<Rightarrow> [])"

definition optional_str :: "string option \<Rightarrow> json" where
  "optional_str v = (case v of None \<Rightarrow> JNull | Some s \<Rightarrow> JStr s)"

section \<open>Notions for the statements\<close>

text \<open>The six providers, in the order in which \<^const>\<open>normalize_jobs\<close> calls their adapters.\<close>

datatype provider = Remotive | Adzuna | JSearch | Careerjet | TheMuse | USAJobs

definition providers :: "provider list" where
  "providers = [Remotive, Adzuna, JSearch, Careerjet, TheMuse, USAJobs]"

fun provider_name :: "provider \<Rightarrow> string" where
  "provider_name Remotive = ''Remotive''"
| "provider_name Adzuna = ''Adzuna''"
| "provider_name JSearch = ''JSearch''"
| "provider_name Careerjet = ''Careerjet''"
| "provider_name TheMuse = ''TheMuse''"
| "provider_name USAJobs = ''USAJobs''"

fun fetch_jobs :: "provider \<Rightarrow> (string \<Rightarrow> py_exn + datetime) \<Rightarrow> world \<Rightarrow> job list io" where
  "fetch_jobs Remotive = fetch_remotive_jobs"
| "fetch_jobs Adzuna = fetch_adzuna_jobs"
| "fetch_jobs JSearch = fetch_jsearch_jobs"
| "fetch_jobs Careerjet = fetch_careerjet_jobs"
| "fetch_jobs TheMuse = fetch_themuse_jobs"
| "fetch_jobs USAJobs = fetch_usajobs"

fun item_body :: "provider \<Rightarrow> (string \<Rightarrow> py_exn + datetime) \<Rightarrow> json \<Rightarrow> py_exn + job option" where
  "item_body Remotive = remotive_item"
| "item_body Adzuna = adzuna_item"
| "item_body JSearch = jsearch_item"
| "item_body Careerjet = careerjet_item"
| "item_body TheMuse = themuse_item"
| "item_body USAJobs = usajobs_item"

fun provider_request :: "provider \<Rightarrow> world \<Rightarrow> request" where
  "provider_request Remotive w = remotive_request"
| "provider_request Adzuna w = adzuna_request w"
| "provider_request JSearch w = jsearch_request w"
| "provider_request Careerjet w = careerjet_request w"
| "provider_request TheMuse w = themuse_request w"
| "provider_request USAJobs w = usajobs_request w"

text \<open>The environment variables that an adapter requires.\<close>

fun credentials :: "provider \<Rightarrow> string list" where
  "credentials Adzuna = [''ADZUNA_APP_ID'', ''ADZUNA_APP_KEY'']"
| "credentials JSearch = [''RAPIDAPI_KEY'']"
| "credentials Careerjet = [''CAREERJET_AFFID'']"
| "credentials TheMuse = [''THEMUSE_API_KEY'']"
| "credentials Remotive = []"
| "credentials USAJobs = []"





text \<open>The loop body of provider \<open>p\<close> has built the record from fields that passed its check.\<close>

definition emitted :: "provider \<Rightarrow> (string \<Rightarrow> py_exn + datetime) \<Rightarrow> job \<Rightarrow> bool" where
  "emitted p fromiso j =
     (\<exists>title company location url raw.
        j = make_job fromiso (provider_name p) title company location url raw
        \<and> title \<noteq> [] \<and> url \<noteq> [] \<and> (p \<noteq> USAJobs \<longrightarrow> company \<noteq> []))"

text \<open>The merged list of \<^const>\<open>normalize_jobs\<close>: the records of the six adapters in call order,
  or the first exception.\<close>

definition merged :: "(string \<Rightarrow> py_exn + datetime) \<Rightarrow> world \<Rightarrow> py_exn + job list" where
  "merged fromiso w =
     ebind (snd (fetch_remotive_jobs fromiso w)) (\<lambda>remotive_jobs.
     ebind (snd (fetch_adzuna_jobs fromiso w)) (\<lambda>adzuna_jobs.
     ebind (snd (fetch_jsearch_jobs fromiso w)) (\<lambda>jsearch_jobs.
     ebind (snd (fetch_careerjet_jobs fromiso w)) (\<lambda>careerjet_jobs.
     ebind (snd (fetch_themuse_jobs fromiso w)) (\<lambda>themuse_jobs.
     ebind (snd (fetch_usajobs fromiso w)) (\<lambda>usajobs_jobs.
       Inr (remotive_jobs @ adzuna_jobs @ jsearch_jobs @ careerjet_jobs
              @ themuse_jobs @ usajobs_jobs)))))))"

definition limit_of :: "int option \<Rightarrow> int" where
  "limit_of limit_arg = (case limit_arg of None \<Rightarrow> 50 | Some l \<Rightarrow> l)"

section \<open>Example worlds\<close>

text \<open>No credentials are configured; Remotive answers 200 with the given decoded body (\<open>None\<close>:
  the body is not JSON) and every other request fails in transport.\<close>

definition only_remotive :: "json option \<Rightarrow> world" where
  "only_remotive body =
     \<lparr>env = (\<lambda>key. None),
      http_get = (\<lambda>req. if req = remotive_request
                         then Some \<lparr>status_code = 200, body_json = body\<rparr> else None)\<rparr>"

definition remotive_item_json :: "string \<Rightarrow> (string \<times> json) list \<Rightarrow> json" where
  "remotive_item_json t extra =
     JObj ([(''title'', JStr t), (''company_name'', JStr ''Acme''),
            (''url'', JStr (''https://example.com/'' @ t))] @ extra)"

text \<open>Five listings: dated March, undated, dated February, April and January of 2024.\<close>

definition five_listings :: json where
  "five_listings =
     JObj [(''jobs'', JArr
       [remotive_item_json ''A'' [(''publication_date'', JStr ''2024-03-01T09:00:00'')],
        remotive_item_json ''B'' [],
        remotive_item_json ''C'' [(''publication_date'', JStr ''2024-02-01T09:00:00'')],
        remotive_item_json ''D'' [(''publication_date'', JStr ''2024-04-01T09:00:00'')],
        remotive_item_json ''E'' [(''publication_date'', JStr ''2024-01-01T09:00:00'')]])]"

text \<open>Two listings, one dated in UTC and one undated, and an item without a link.\<close>

definition utc_listings :: json where
  "utc_listings =
     JObj [(''jobs'', JArr
       [remotive_item_json ''A'' [(''publication_date'', JStr ''2024-03-01T09:00:00Z'')],
        JObj [(''title'', JStr ''No link''), (''company_name'', JStr ''Acme'')],
        remotive_item_json ''B'' []])]"

text \<open>Remotive answers 503; USAJobs, called without a key, answers 200 with one listing; no
  credentials are configured.\<close>

definition usajobs_item_json :: json where
  "usajobs_item_json =
     JObj [(''MatchedObjectDescriptor'', JObj
          [(''PositionTitle'', JStr ''IT Specialist''),
           (''PositionURI'', JArr [JStr ''https://www.usajobs.gov/job/1'']),
           (''PublicationStartDate'', JStr ''2024-05-01'')])]"

definition usajobs_listing :: json where
  "usajobs_listing =
     JObj [(''SearchResult'', JObj [(''SearchResultItems'', JArr [usajobs_item_json])])]"

definition remotive_down :: world where
  "remotive_down =
     \<lparr>env = (\<lambda>key. None),
      http_get = (\<lambda>req. if req = remotive_request
                         then Some \<lparr>status_code = 503, body_json = None\<rparr>
                         else if req_url req = ''https://data.usajobs.gov/api/Search''
                         then Some \<lparr>status_code = 200, body_json = Some usajobs_listing\<rparr>
                         else None)\<rparr>"

text \<open>No credentials are configured; Remotive answers with the given status and a body that is
  not JSON, and every other request fails in transport.\<close>

definition remotive_status :: "nat \<Rightarrow> world" where
  "remotive_status code =
     \<lparr>env = (\<lambda>key. None),
      http_get = (\<lambda>req. if req = remotive_request
                         then Some \<lparr>status_code = code, body_json = None\<rparr> else None)\<rparr>"

text \<open>The records that the adapters build from these listings.\<close>

definition listed :: "string \<Rightarrow> json \<Rightarrow> job" where
  "listed t raw =
     make_job fromisoformat_basic ''Remotive'' t ''Acme'' ''Remote'' (''https://example.com/'' @ t) raw"

definition usajob :: job where
  "usajob = make_job fromisoformat_basic ''USAJobs'' ''IT Specialist'' ''US Government'' ''Remote''
              ''https://www.usajobs.gov/job/1'' (JStr ''2024-05-01'')"

text \<open>Only the given environment variables are set, and every request fails in transport.\<close>

definition with_keys :: "(string \<times> string) list \<Rightarrow> world" where
  "with_keys kvs = \<lparr>env = map_of kvs, http_get = (\<lambda>req. None)\<rparr>"

section \<open>Example records\<close>



chapter \<open>Properties\<close>

section \<open>Strings\<close>

lemma char_of_eq_lit [simp]: "(char_of (n::nat) = c) = (n mod 256 = of_char c)"
  by (auto simp: char_of_eq_iff take_bit_eq_mod)

lemma lit_eq_char_of [simp]: "(c = char_of (n::nat)) = (n mod 256 = of_char c)"
  using char_of_eq_lit [of n c] by (simp only: eq_commute [of c])

lemma py_in_sublist: "py_in sub s = sublist sub s"
  by (induction s) (auto simp: sublist_Cons_right)

lemma lower_append [simp]: "lower (xs @ ys) = lower xs @ lower ys"
  by (simp add: lower_def)

section \<open>Categorization\<close>

lemma internship_intern: "py_in ''internship'' t \<Longrightarrow> py_in ''intern'' t"
proof -
  assume "py_in ''internship'' t"
  then obtain ps ss where "t = ps @ ''intern'' @ (''ship'' @ ss)"
    by (auto simp: py_in_sublist sublist_def)
  then show ?thesis
    unfolding py_in_sublist sublist_def by blast
qed

text \<open>
  C4. \<^const>\<open>categorize_job\<close> is total and priority-ordered. The test is the code's own: the
  keyword occurs in the lower-cased title. A title whose lower-cased form contains "intern" is
  an Internship whatever else it contains; otherwise one that contains "data" or "analyst" is
  Data Science; otherwise one that contains "ai", "ml" or "machine learning" is AI/ML; every
  other title is Software Engineering. So every title has exactly one of the four categories.
\<close>

theorem categorize_job_priority:
  "categorize_job title =
     (if py_in ''intern'' (lower title) then ''Internship''
      else if py_in ''data'' (lower title) \<or> py_in ''analyst'' (lower title) then ''Data Science''
      else if py_in ''ai'' (lower title) \<or> py_in ''ml'' (lower title)
              \<or> py_in ''machine learning'' (lower title) then ''AI/ML''
      else ''Software Engineering'')
   \<and> categorize_job title
        \<in> {''Internship'', ''Data Science'', ''AI/ML'', ''Software Engineering''}"
  using internship_intern [of "lower title"]
  by (auto simp: categorize_job_def Let_def)

theorem categorize_job_priority_witness:
  "py_in ''intern'' (lower ''Data Science INTERN'')
   \<and> py_in ''data'' (lower ''Data Science INTERN'')
   \<and> categorize_job ''Data Science INTERN'' = ''Internship''
   \<and> categorize_job ''Senior Data Analyst'' = ''Data Science''
   \<and> categorize_job ''ML Platform Engineer'' = ''AI/ML''
   \<and> categorize_job ''Backend Developer'' = ''Software Engineering''"
  using categorize_job_priority [of "''Data Science INTERN''"]
    categorize_job_priority [of "''Senior Data Analyst''"]
    categorize_job_priority [of "''ML Platform Engineer''"]
    categorize_job_priority [of "''Backend Developer''"]
  by (simp add: lower_def lower_char_def)

section \<open>Deduplication\<close>









section \<open>Dates: printing and parsing\<close>

lemma replicate_numeral: "replicate (numeral k) x = x # replicate (pred_numeral k) x"
  by (simp add: numeral_eq_Suc)

lemma digit_char_0: "digit_char 0 = CHR ''0''"
  by (simp add: digit_char_def)

lemma digit_val_digit_char: "n < 10 \<Longrightarrow> digit_val (digit_char n) = Some n"
proof -
  assume "n < 10"
  then have "n \<in> {0, 1, 2, 3, 4, 5, 6, 7, 8, 9}"
    by auto
  then show ?thesis
    by (auto simp: digit_val_def digit_char_def)
qed

lemma digits10_small: "n < 10 \<Longrightarrow> digits10 n = [digit_char n]"
  by (simp add: digits10.simps)

lemma digits10_large: "10 \<le> n \<Longrightarrow> digits10 n = digits10 (n div 10) @ [digit_char (n mod 10)]"
  by (subst digits10.simps) simp

lemma zpad_1: "n < 10 \<Longrightarrow> zpad 1 n = [digit_char n]"
  by (simp add: zpad_def digits10_small)

lemma zpad_Suc: "1 \<le> k \<Longrightarrow> zpad (Suc k) n = zpad k (n div 10) @ [digit_char (n mod 10)]"
proof (cases "n < 10")
  case True
  assume "1 \<le> k"
  then obtain j where "k = Suc j" by (cases k) auto
  with True show ?thesis
    by (simp add: zpad_def digits10_small digit_char_0 replicate_append_same)
next
  case False
  then show ?thesis
    by (simp add: zpad_def digits10_large Suc_diff_le)
qed

lemma zpad_2: "n < 100 \<Longrightarrow> zpad 2 n = [digit_char (n div 10), digit_char (n mod 10)]"
  using zpad_Suc [of 1 n] zpad_1 [of "n div 10"] by (simp add: numeral_2_eq_2)

lemma zpad_4:
  "n < 10000 \<Longrightarrow>
   zpad 4 n = [digit_char (n div 1000), digit_char (n div 100 mod 10),
               digit_char (n div 10 mod 10), digit_char (n mod 10)]"
  using zpad_Suc [of 3 n] zpad_Suc [of 2 "n div 10"] zpad_2 [of "n div 100"]
  by (simp add: div_mult2_eq [symmetric])

lemma zpad_6:
  "n < 1000000 \<Longrightarrow>
   zpad 6 n = [digit_char (n div 100000), digit_char (n div 10000 mod 10),
               digit_char (n div 1000 mod 10), digit_char (n div 100 mod 10),
               digit_char (n div 10 mod 10), digit_char (n mod 10)]"
  using zpad_Suc [of 5 n] zpad_Suc [of 4 "n div 10"] zpad_Suc [of 3 "n div 100"]
    zpad_Suc [of 2 "n div 1000"] zpad_2 [of "n div 10000"]
  by (simp add: div_mult2_eq [symmetric])


lemma num_single: "n < 10 \<Longrightarrow> num [digit_char n] = Some n"
  by (simp add: num_def digit_val_digit_char)

lemma num_snoc:
  "s \<noteq> [] \<Longrightarrow> num s = Some a \<Longrightarrow> d < 10 \<Longrightarrow> num (s @ [digit_char d]) = Some (10 * a + d)"
  by (simp add: num_def digit_val_digit_char)

lemma digits10_nonempty: "digits10 n \<noteq> []"
  by (subst digits10.simps) simp

lemma zpad_nonempty: "zpad k n \<noteq> []"
  by (simp add: zpad_def digits10_nonempty)

lemma num_zpad: "1 \<le> k \<Longrightarrow> n < 10 ^ k \<Longrightarrow> num (zpad k n) = Some n"
proof (induction k arbitrary: n)
  case 0
  then show ?case by simp
next
  case (Suc k)
  show ?case
  proof (cases "k = 0")
    case True
    with Suc.prems show ?thesis
      using zpad_1 [of n] by (simp add: num_single)
  next
    case False
    then have k: "1 \<le> k" by simp
    have "n div 10 < 10 ^ k"
      using Suc.prems(2) by (simp add: less_mult_imp_div_less mult.commute)
    then have "num (zpad k (n div 10)) = Some (n div 10)"
      using Suc.IH k by simp
    then have "num (zpad k (n div 10) @ [digit_char (n mod 10)]) = Some (10 * (n div 10) + n mod 10)"
      by (intro num_snoc zpad_nonempty) simp_all
    then show ?thesis
      by (simp add: zpad_Suc [OF k])
  qed
qed

lemma num_zpad_2: "n < 100 \<Longrightarrow> num (zpad 2 n) = Some n"
  using num_zpad [of 2 n] by simp

lemma num_zpad_4: "n < 10000 \<Longrightarrow> num (zpad 4 n) = Some n"
  using num_zpad [of 4 n] by simp

lemma num_zpad_6: "n < 1000000 \<Longrightarrow> num (zpad 6 n) = Some n"
  using num_zpad [of 6 n] by simp

lemma length_zpad_2: "n < 100 \<Longrightarrow> length (zpad 2 n) = 2"
  by (simp add: zpad_2)

lemma length_zpad_4: "n < 10000 \<Longrightarrow> length (zpad 4 n) = 4"
  by (simp add: zpad_4)

lemma length_zpad_6: "n < 1000000 \<Longrightarrow> length (zpad 6 n) = 6"
  by (simp add: zpad_6)

lemma parse_date_zpad:
  assumes "y < 10000" "m < 100" "d < 100"
  shows "parse_date (zpad 4 y @ CHR ''-'' # zpad 2 m @ CHR ''-'' # zpad 2 d @ rest) = Some ((y, m, d), rest)"
proof -
  obtain y1 y2 y3 y4 where y: "zpad 4 y = [y1, y2, y3, y4]"
    using assms(1) by (simp add: zpad_4)
  obtain m1 m2 where m: "zpad 2 m = [m1, m2]"
    using assms(2) by (simp add: zpad_2)
  obtain d1 d2 where d: "zpad 2 d = [d1, d2]"
    using assms(3) by (simp add: zpad_2)
  have "num [y1, y2, y3, y4] = Some y" "num [m1, m2] = Some m" "num [d1, d2] = Some d"
    using num_zpad_4 [OF assms(1)] num_zpad_2 [OF assms(2)] num_zpad_2 [OF assms(3)]
    by (simp_all add: y m d)
  then show ?thesis
    by (simp add: parse_date_def y m d)
qed

lemma parse_hms_zpad:
  assumes "h < 100" "m < 100" "s < 100"
  shows "parse_hms (zpad 2 h @ CHR '':'' # zpad 2 m @ CHR '':'' # zpad 2 s @ rest) = Some ((h, m, s), rest)"
proof -
  obtain h1 h2 where h: "zpad 2 h = [h1, h2]"
    using assms(1) by (simp add: zpad_2)
  obtain m1 m2 where m: "zpad 2 m = [m1, m2]"
    using assms(2) by (simp add: zpad_2)
  obtain s1 s2 where s: "zpad 2 s = [s1, s2]"
    using assms(3) by (simp add: zpad_2)
  have "num [h1, h2] = Some h" "num [m1, m2] = Some m" "num [s1, s2] = Some s"
    using num_zpad_2 [OF assms(1)] num_zpad_2 [OF assms(2)] num_zpad_2 [OF assms(3)]
    by (simp_all add: h m s)
  then show ?thesis
    by (simp add: parse_hms_def h m s)
qed

lemma parse_fraction_zpad:
  assumes "us < 1000000"
  shows "parse_fraction (CHR ''.'' # zpad 6 us @ rest) = Some (us, rest)"
proof -
  obtain a b c d e f where z: "zpad 6 us = [a, b, c, d, e, f]"
    using assms by (simp add: zpad_6)
  have "num [a, b, c, d, e, f] = Some us"
    using num_zpad_6 [OF assms] by (simp add: z)
  then show ?thesis
    by (simp add: parse_fraction_def z)
qed

lemma parse_fraction_none: "take 1 rest \<noteq> ''.'' \<Longrightarrow> parse_fraction rest = Some (0, rest)"
  by (simp add: parse_fraction_def)

lemma format_offset_minutes:
  assumes "\<bar>off\<bar> < 86400000000" "\<bar>off\<bar> mod 60000000 = 0"
  shows "format_offset off =
           (if off < 0 then CHR ''-'' else CHR ''+'')
             # zpad 2 (nat \<bar>off\<bar> div 3600000000) @ '':''
             @ zpad 2 (nat \<bar>off\<bar> mod 3600000000 div 60000000)"
proof -
  define a where "a = nat \<bar>off\<bar>"
  have "nat \<bar>off\<bar> mod 60000000 = nat (\<bar>off\<bar> mod 60000000)"
    by (simp add: nat_mod_distrib)
  then have "a mod 60000000 = 0"
    using assms(2) unfolding a_def by simp
  then have "a mod 60000000 div 1000000 = 0" "a mod 1000000 = 0"
    using mod_mod_cancel [of 1000000 60000000 a] by simp_all
  then show ?thesis
    by (simp add: format_offset_def Let_def a_def [symmetric])
qed

lemma parse_offset_format:
  assumes "\<bar>off\<bar> < 86400000000" "\<bar>off\<bar> mod 60000000 = 0"
  shows "parse_offset (format_offset off) = Some (Some off)"
proof -
  define a where "a = nat \<bar>off\<bar>"
  define hh where "hh = a div 3600000000"
  define mm where "mm = a mod 3600000000 div 60000000"
  have "nat \<bar>off\<bar> mod 60000000 = nat (\<bar>off\<bar> mod 60000000)"
    by (simp add: nat_mod_distrib)
  then have a: "a < 86400000000" "a mod 60000000 = 0"
    using assms unfolding a_def by simp_all
  have hh: "hh < 24"
    using a(1) unfolding hh_def by (simp add: div_less_iff_less_mult)
  have "a mod 3600000000 < 60 * 60000000"
    by simp
  then have mm: "mm < 60"
    unfolding mm_def by (simp only: div_less_iff_less_mult zero_less_numeral)
  have "a mod 3600000000 mod 60000000 = 0"
    using mod_mod_cancel [of 60000000 3600000000 a] a(2) by simp
  then have "a mod 3600000000 = mm * 60000000"
    unfolding mm_def using div_mult_mod_eq [of "a mod 3600000000" 60000000] by simp
  then have tot: "a = hh * 3600000000 + mm * 60000000"
    unfolding hh_def using div_mult_mod_eq [of a 3600000000] by simp
  obtain h1 h2 where h: "zpad 2 hh = [h1, h2]"
    using hh by (simp add: zpad_2)
  obtain m1 m2 where m: "zpad 2 mm = [m1, m2]"
    using mm by (simp add: zpad_2)
  have n: "num [h1, h2] = Some hh" "num [m1, m2] = Some mm"
    using num_zpad_2 [of hh] num_zpad_2 [of mm] hh mm by (simp_all add: h m)
  have f: "format_offset off = (if off < 0 then CHR ''-'' else CHR ''+'') # [h1, h2] @ '':'' @ [m1, m2]"
    using format_offset_minutes [OF assms] by (simp add: a_def hh_def mm_def h [symmetric] m [symmetric])
  have i: "int a = \<bar>off\<bar>"
    unfolding a_def by simp
  have "int hh * 3600000000 + int mm * 60000000 = \<bar>off\<bar>"
    using tot i by (metis (no_types) of_nat_add of_nat_mult of_nat_numeral)
  then show ?thesis
    using hh mm by (auto simp add: f parse_offset_def n)
qed

lemma format_offset_shape:
  assumes "\<bar>off\<bar> < 86400000000" "\<bar>off\<bar> mod 60000000 = 0"
  shows "take 1 (format_offset off) \<noteq> ''.''"
  using format_offset_minutes [OF assms] by auto

lemma days_in_month_le: "days_in_month y m \<le> 31"
  by (simp add: days_in_month_def)

lemma fromisoformat_basic_isoformat:
  assumes "valid_dt dt"
  shows "fromisoformat_basic (isoformat dt) = Inr dt"
proof -
  have b: "year dt < 10000" "month dt < 100" "day dt < 100" "hour dt < 100" "minute dt < 100"
    "second dt < 100" "microsecond dt < 1000000"
    and v: "valid_fields (year dt) (month dt) (day dt) (hour dt) (minute dt) (second dt)"
    using assms days_in_month_le [of "year dt" "month dt"]
    by (auto simp: valid_dt_def valid_fields_def)
  define frac where "frac = (if microsecond dt \<noteq> 0 then ''.'' @ zpad 6 (microsecond dt) else [])"
  define offs where "offs = (case utcoffset dt of None \<Rightarrow> [] | Some off \<Rightarrow> format_offset off)"
  have iso: "isoformat dt =
      zpad 4 (year dt) @ ''-'' @ zpad 2 (month dt) @ ''-'' @ zpad 2 (day dt)
      @ (CHR ''T'' # (zpad 2 (hour dt) @ '':'' @ zpad 2 (minute dt) @ '':'' @ zpad 2 (second dt)
      @ (frac @ offs)))"
    by (simp add: isoformat_def frac_def offs_def)
  have "parse_offset offs = Some (utcoffset dt) \<and> take 1 offs \<noteq> ''.''"
  proof (cases "utcoffset dt")
    case None
    then show ?thesis
      by (simp add: offs_def parse_offset_def)
  next
    case (Some off)
    then have "\<bar>off\<bar> < 86400000000" "\<bar>off\<bar> mod 60000000 = 0"
      using assms by (simp_all add: valid_dt_def)
    then show ?thesis
      using parse_offset_format [of off] format_offset_shape [of off] Some
      by (simp add: offs_def)
  qed
  then have po: "parse_offset offs = Some (utcoffset dt)" and sh: "take 1 offs \<noteq> ''.''"
    by simp_all
  have pf: "parse_fraction (frac @ offs) = Some (microsecond dt, offs)"
    using parse_fraction_zpad [OF b(7), of offs] parse_fraction_none [OF sh]
    by (auto simp: frac_def)
  show ?thesis
    unfolding iso fromisoformat_basic_def
    by (simp add: parse_date_zpad [OF b(1-3)] parse_hms_zpad [OF b(4-6)] pf po v)
qed



lemma num_foldl_None:
  "foldl (\<lambda>acc c. case (acc, digit_val c) of (Some a, Some v) \<Rightarrow> Some (10 * a + v) | _ \<Rightarrow> None)
     None s = None"
  by (induction s) auto

lemma num_foldl_bound:
  "foldl (\<lambda>acc c. case (acc, digit_val c) of (Some a, Some v) \<Rightarrow> Some (10 * a + v) | _ \<Rightarrow> None)
     (Some k) s = Some n \<Longrightarrow> n < (k + 1) * 10 ^ length s"
proof (induction s arbitrary: k)
  case Nil
  then show ?case by simp
next
  case (Cons c s)
  show ?case
  proof (cases "digit_val c")
    case None
    show ?thesis using Cons.prems None num_foldl_None [of s] by simp
  next
    case (Some v)
    then have "v < 10"
      by (auto simp: digit_val_def Let_def split: if_splits)
    then have "10 * k + v + 1 \<le> (k + 1) * 10"
      by simp
    then have "(10 * k + v + 1) * 10 ^ length s \<le> (k + 1) * 10 * 10 ^ length s"
      by (rule mult_le_mono1)
    moreover have "n < (10 * k + v + 1) * 10 ^ length s"
      using Cons.IH [of "10 * k + v"] Cons.prems Some by simp
    ultimately have "n < (k + 1) * 10 * 10 ^ length s"
      by (rule less_le_trans [rotated])
    then show ?thesis by (simp add: algebra_simps)
  qed
qed

lemma num_bound: "num s = Some n \<Longrightarrow> n < 10 ^ length s"
  using num_foldl_bound [of 0 s n] by (auto simp: num_def split: if_splits)

lemma parse_fraction_bound: "parse_fraction t = Some (us, r) \<Longrightarrow> us < 1000000"
  using num_bound [of "take 6 (drop 1 t)" us]
  by (auto simp: parse_fraction_def split: if_splits option.splits)

lemma parse_offset_bound:
  "parse_offset t = Some (Some off) \<Longrightarrow> \<bar>off\<bar> < 86400000000 \<and> \<bar>off\<bar> mod 60000000 = 0"
  by (auto simp: parse_offset_def abs_mult split: if_splits option.splits)

lemma fromisoformat_basic_valid:
  assumes "fromisoformat_basic s = Inr dt"
  shows "valid_dt dt"
proof (cases "parse_date s")
  case None
  with assms show ?thesis by (simp add: fromisoformat_basic_def)
next
  case (Some p)
  obtain y m d rest where p: "p = ((y, m, d), rest)"
    by (metis prod.exhaust)
  show ?thesis
  proof (cases rest)
    case Nil
    with assms Some p show ?thesis
      by (auto simp: fromisoformat_basic_def valid_dt_def split: if_splits)
  next
    case (Cons sep t)
    from assms Some p Cons obtain h mi sec t1 us t2 off where
      "parse_fraction t1 = Some (us, t2)" "parse_offset t2 = Some off"
      "valid_fields y m d h mi sec"
      "dt = \<lparr>year = y, month = m, day = d, hour = h, minute = mi, second = sec,
             microsecond = us, utcoffset = off\<rparr>"
      by (auto simp: fromisoformat_basic_def split: option.splits prod.splits if_splits)
    then show ?thesis
      using parse_fraction_bound [of t1 us t2] parse_offset_bound [of t2]
      by (cases off) (auto simp: valid_dt_def)
  qed
qed

section \<open>Date normalization\<close>

lemmas date_eval =
  fromisoformat_basic_def parse_date_def parse_hms_def parse_fraction_def parse_offset_def
  num_def digit_val_def valid_fields_def days_in_month_def is_leap_def
  isoformat_def format_offset_def zpad_2 zpad_4 zpad_6 digit_char_def str_replace_def

lemma str_replace_absent: "c \<notin> set s \<Longrightarrow> str_replace c new s = s"
  by (induction s) (auto simp: str_replace_def)

lemma str_replace_append [simp]:
  "str_replace c new (xs @ ys) = str_replace c new xs @ str_replace c new ys"
  by (simp add: str_replace_def)

lemma replace_trailing_only:
  "CHR ''Z'' \<notin> set (butlast s) \<Longrightarrow> str_replace CHR ''Z'' ''+00:00'' s = replace_trailing_Z s"
proof (cases s rule: rev_cases)
  case Nil
  then show ?thesis by (simp add: str_replace_def replace_trailing_Z_def)
next
  case (snoc xs x)
  assume "CHR ''Z'' \<notin> set (butlast s)"
  with snoc have "str_replace CHR ''Z'' ''+00:00'' xs = xs"
    by (simp add: str_replace_absent)
  with snoc show ?thesis
    by (simp add: replace_trailing_Z_def) (simp add: str_replace_def)
qed

text \<open>
  C5, as the code has it. \<^const>\<open>parse_iso_datetime\<close> returns the empty string for an absent and
  for an empty input. For a non-empty string it replaces every \<^verbatim>\<open>Z\<close> of the string by
  \<^verbatim>\<open>+00:00\<close>, not only a trailing one, and parses the result: on success it returns the
  \<^verbatim>\<open>isoformat\<close> of the datetime, on failure the empty string; it never raises. Where the
  string has no \<^verbatim>\<open>Z\<close> before its last character, this is the rule of the specification.
\<close>

theorem parse_iso_datetime_every_Z:
  "parse_iso_datetime fromiso (optional_str None) = []
   \<and> parse_iso_datetime fromiso (optional_str (Some [])) = []
   \<and> (s \<noteq> [] \<longrightarrow>
        parse_iso_datetime fromiso (optional_str (Some s)) =
          (case fromiso (str_replace CHR ''Z'' ''+00:00'' s) of
             Inr dt \<Rightarrow> isoformat dt
           | Inl e \<Rightarrow> []))
   \<and> (CHR ''Z'' \<notin> set (butlast s) \<longrightarrow>
        parse_iso_datetime fromiso (optional_str (Some s)) = parse_iso_datetime_spec fromiso (Some s))"
  by (auto simp: parse_iso_datetime_def parse_iso_datetime_spec_def optional_str_def
        replace_trailing_only)

theorem parse_iso_datetime_every_Z_witness:
  "''2024-01-15T10:00:00Z'' \<noteq> [] \<and> CHR ''Z'' \<notin> set (butlast ''2024-01-15T10:00:00Z'')
   \<and> parse_iso_datetime fromisoformat_basic (optional_str (Some ''2024-01-15T10:00:00Z''))
       = ''2024-01-15T10:00:00+00:00''
   \<and> parse_iso_datetime_spec fromisoformat_basic (Some ''2024-01-15T10:00:00Z'')
       = ''2024-01-15T10:00:00+00:00''
   \<and> parse_iso_datetime fromisoformat_basic (optional_str (Some ''not-a-date'')) = []"
  using parse_iso_datetime_every_Z [of fromisoformat_basic "''2024-01-15T10:00:00Z''"]
    parse_iso_datetime_every_Z [of fromisoformat_basic "''not-a-date''"]
  by (auto simp: date_eval)

text \<open>
  The claim as stated fails where a \<^verbatim>\<open>Z\<close> stands inside the string: with only a trailing \<^verbatim>\<open>Z\<close>
  replaced, \<^verbatim>\<open>2024-01-15Z10:00:00\<close> parses (the separator may be any character) and normalizes
  to \<^verbatim>\<open>2024-01-15T10:00:00\<close>; the code turns it into \<^verbatim>\<open>2024-01-15+00:0010:00:00\<close>, which does
  not parse, and returns the empty string.
\<close>

theorem parse_iso_datetime_trailing_counterexample:
  "parse_iso_datetime fromisoformat_basic (optional_str (Some ''2024-01-15Z10:00:00'')) = []
   \<and> parse_iso_datetime_spec fromisoformat_basic (Some ''2024-01-15Z10:00:00'')
       = ''2024-01-15T10:00:00''"
  by (simp add: parse_iso_datetime_def parse_iso_datetime_spec_def optional_str_def
        replace_trailing_Z_def date_eval)

section \<open>Provider adapters\<close>

lemma ebind_Inr_iff: "(ebind m f = Inr y) = (\<exists>x. m = Inr x \<and> f x = Inr y)"
  by (cases m) (auto simp: ebind_def)

lemma ebind_Inr [simp]: "ebind (Inr x) f = f x"
  by (simp add: ebind_def)

lemma ebind_Inl [simp]: "ebind (Inl e) f = Inl e"
  by (simp add: ebind_def)

lemma for_items_mem:
  "for_items f items = Inr jobs \<Longrightarrow> j \<in> set jobs \<Longrightarrow> \<exists>item\<in>set items. f item = Inr (Some j)"
proof (induction items arbitrary: jobs)
  case Nil
  then show ?case by simp
next
  case (Cons item items)
  from Cons.prems(1) obtain r js where r: "f item = Inr r" and js: "for_items f items = Inr js"
    and jobs: "jobs = (case r of None \<Rightarrow> js | Some j \<Rightarrow> j # js)"
    by (auto simp: ebind_Inr_iff)
  show ?case
  proof (cases "j \<in> set js")
    case True
    with Cons.IH [OF js] show ?thesis by auto
  next
    case False
    with Cons.prems(2) jobs have "r = Some j"
      by (cases r) auto
    with r show ?thesis by simp
  qed
qed

lemma listing_mem:
  "listing resp find_items body = Inr jobs \<Longrightarrow> j \<in> set jobs \<Longrightarrow> \<exists>item. body item = Inr (Some j)"
  using for_items_mem [of body _ jobs j]
  by (auto simp: listing_def ebind_Inr_iff)


lemma emittedI:
  "title \<noteq> [] \<Longrightarrow> url \<noteq> [] \<Longrightarrow> (p \<noteq> USAJobs \<longrightarrow> company \<noteq> []) \<Longrightarrow> source = provider_name p \<Longrightarrow>
   emitted p fromiso (make_job fromiso source title company location url raw)"
  unfolding emitted_def by blast

lemma item_body_emitted: "item_body p fromiso item = Inr (Some j) \<Longrightarrow> emitted p fromiso j"
proof (cases p)
  case Remotive
  assume "item_body p fromiso item = Inr (Some j)"
  with Remotive show ?thesis
    by (auto simp: remotive_item_def ebind_Inr_iff intro!: emittedI split: if_splits)
next
  case Adzuna
  assume "item_body p fromiso item = Inr (Some j)"
  with Adzuna show ?thesis
    by (auto simp: adzuna_item_def ebind_Inr_iff intro!: emittedI split: if_splits)
next
  case JSearch
  assume "item_body p fromiso item = Inr (Some j)"
  with JSearch show ?thesis
    by (auto simp: jsearch_item_def ebind_Inr_iff Let_def intro!: emittedI split: if_splits)
next
  case Careerjet
  assume "item_body p fromiso item = Inr (Some j)"
  with Careerjet show ?thesis
    by (auto simp: careerjet_item_def ebind_Inr_iff intro!: emittedI split: if_splits)
next
  case TheMuse
  assume "item_body p fromiso item = Inr (Some j)"
  with TheMuse show ?thesis
    by (auto simp: themuse_item_def ebind_Inr_iff intro!: emittedI split: if_splits)
next
  case USAJobs
  assume "item_body p fromiso item = Inr (Some j)"
  with USAJobs show ?thesis
    by (auto simp: usajobs_item_def ebind_Inr_iff intro!: emittedI split: if_splits)
qed


lemma fetch_jobs_mem:
  "snd (fetch_jobs p fromiso w) = Inr jobs \<Longrightarrow> j \<in> set jobs \<Longrightarrow>
   \<exists>item. item_body p fromiso item = Inr (Some j)"
proof (cases p)
  case Remotive
  assume "snd (fetch_jobs p fromiso w) = Inr jobs" "j \<in> set jobs"
  with Remotive show ?thesis
    using listing_mem [of _ remotive_items "remotive_item fromiso" jobs j]
    by (auto simp: fetch_remotive_jobs_def split: option.splits)
next
  case Adzuna
  assume "snd (fetch_jobs p fromiso w) = Inr jobs" "j \<in> set jobs"
  with Adzuna show ?thesis
    using listing_mem [of _ "results_items ''results''" "adzuna_item fromiso" jobs j]
    by (auto simp: fetch_adzuna_jobs_def split: option.splits if_splits)
next
  case JSearch
  assume "snd (fetch_jobs p fromiso w) = Inr jobs" "j \<in> set jobs"
  with JSearch show ?thesis
    using listing_mem [of _ "results_items ''data''" "jsearch_item fromiso" jobs j]
    by (auto simp: fetch_jsearch_jobs_def split: option.splits if_splits)
next
  case Careerjet
  assume "snd (fetch_jobs p fromiso w) = Inr jobs" "j \<in> set jobs"
  with Careerjet show ?thesis
    using listing_mem [of _ "results_items ''jobs''" "careerjet_item fromiso" jobs j]
    by (auto simp: fetch_careerjet_jobs_def split: option.splits if_splits)
next
  case TheMuse
  assume "snd (fetch_jobs p fromiso w) = Inr jobs" "j \<in> set jobs"
  with TheMuse show ?thesis
    using listing_mem [of _ "results_items ''results''" "themuse_item fromiso" jobs j]
    by (auto simp: fetch_themuse_jobs_def split: option.splits if_splits)
next
  case USAJobs
  assume "snd (fetch_jobs p fromiso w) = Inr jobs" "j \<in> set jobs"
  with USAJobs show ?thesis
    using listing_mem [of _ usajobs_items "usajobs_item fromiso" jobs j]
    by (auto simp: fetch_usajobs_def split: option.splits)
qed

lemma strip_Remote [simp]: "strip ''Remote'' = ''Remote''"
  by (simp add: strip_def lstrip_def rstrip_def is_space_def)

lemma strip_US_Government [simp]: "strip ''US Government'' = ''US Government''"
  by (simp add: strip_def lstrip_def rstrip_def is_space_def)


lemma first_or_empty [simp]: "first_or (JArr []) dflt = Inr dflt"
  by (simp add: first_or_def)



lemma snd_io_bind: "snd (io_bind m f) = ebind (snd m) (\<lambda>x. snd (f x))"
  by (auto simp: io_bind_def ebind_def split: prod.splits sum.splits)

lemma ebind_assoc: "ebind (ebind m f) g = ebind m (\<lambda>x. ebind (f x) g)"
  by (cases m) simp_all

lemma normalize_jobs_snd:
  "snd (normalize_jobs fromiso w limit_arg) =
     ebind (merged fromiso w) (\<lambda>jobs. rank_jobs fromiso jobs (limit_of limit_arg))"
  by (simp add: normalize_jobs_def merged_def limit_of_def snd_io_bind ebind_assoc Let_def)

lemma merged_all:
  "(\<And>q. snd (fetch_jobs q fromiso w) = Inr (recs q)) \<Longrightarrow>
   merged fromiso w = Inr (concat (map recs providers))"
proof -
  assume a: "\<And>q. snd (fetch_jobs q fromiso w) = Inr (recs q)"
  show ?thesis
    using a [of Remotive] a [of Adzuna] a [of JSearch] a [of Careerjet] a [of TheMuse] a [of USAJobs]
    by (simp add: merged_def providers_def)
qed

lemma try_get_None:
  "(try_get w req = None) =
     (http_get w req = None
      \<or> (\<exists>r. http_get w req = Some r \<and> 400 \<le> status_code r \<and> status_code r < 600))"
  by (auto simp: try_get_def raise_for_status_def split: option.splits)

lemma fetch_jobs_failed:
  "try_get w (provider_request p w) = None \<Longrightarrow> snd (fetch_jobs p fromiso w) = Inr []"
  by (cases p)
     (simp_all add: fetch_remotive_jobs_def fetch_adzuna_jobs_def fetch_jsearch_jobs_def
        fetch_careerjet_jobs_def fetch_themuse_jobs_def fetch_usajobs_def)

lemma fetch_jobs_no_credentials:
  "key \<in> set (credentials p) \<Longrightarrow> env w key = None \<Longrightarrow> fetch_jobs p fromiso w = ([], Inr [])"
  by (cases p)
     (auto simp: fetch_adzuna_jobs_def fetch_jsearch_jobs_def fetch_careerjet_jobs_def
        fetch_themuse_jobs_def unset_def)

lemma fetch_jobs_calls:
  "credentials p = [] \<Longrightarrow> fst (fetch_jobs p fromiso w) = [provider_request p w]"
  by (cases p) (auto simp: fetch_remotive_jobs_def fetch_usajobs_def split: option.splits)

section \<open>The example worlds\<close>

lemma make_job_sel [simp]:
  "job_title (make_job fromiso source title company location url raw) = title"
  "job_company (make_job fromiso source title company location url raw) = company"
  "job_location (make_job fromiso source title company location url raw) = location"
  "job_url (make_job fromiso source title company location url raw) = url"
  "job_source (make_job fromiso source title company location url raw) = source"
  "job_published (make_job fromiso source title company location url raw)
     = parse_iso_datetime fromiso raw"
  by (simp_all add: make_job_def)


lemmas adapter_eval =
  try_get_def raise_for_status_def listing_def response_json_def por_def is_dict_def is_list_def
  strip_def lstrip_def rstrip_def is_space_def

lemma five_listings_fetched:
  "fetch_remotive_jobs fromisoformat_basic (only_remotive (Some five_listings)) =
     ([remotive_request],
      Inr [listed ''A'' (JStr ''2024-03-01T09:00:00''), listed ''B'' JNull,
           listed ''C'' (JStr ''2024-02-01T09:00:00''), listed ''D'' (JStr ''2024-04-01T09:00:00''),
           listed ''E'' (JStr ''2024-01-01T09:00:00'')])"
  by (simp add: fetch_remotive_jobs_def only_remotive_def five_listings_def remotive_item_json_def
        remotive_items_def remotive_item_def listed_def adapter_eval)

lemma utc_listings_fetched:
  "fetch_remotive_jobs fromisoformat_basic (only_remotive (Some utc_listings)) =
     ([remotive_request],
      Inr [listed ''A'' (JStr ''2024-03-01T09:00:00Z''), listed ''B'' JNull])"
  by (simp add: fetch_remotive_jobs_def only_remotive_def utc_listings_def remotive_item_json_def
        remotive_items_def remotive_item_def listed_def adapter_eval)

lemma only_remotive_merged:
  "merged fromiso (only_remotive body) = snd (fetch_remotive_jobs fromiso (only_remotive body))"
proof -
  have "snd (fetch_usajobs fromiso (only_remotive body)) = Inr []"
    by (simp add: fetch_usajobs_def try_get_def only_remotive_def usajobs_request_def
          remotive_request_def)
  then show ?thesis
    by (cases "snd (fetch_remotive_jobs fromiso (only_remotive body))")
       (simp_all add: merged_def fetch_adzuna_jobs_def fetch_jsearch_jobs_def
          fetch_careerjet_jobs_def fetch_themuse_jobs_def unset_def only_remotive_def)
qed

lemma listed_published:
  "job_published (listed ''A'' (JStr ''2024-03-01T09:00:00'')) = ''2024-03-01T09:00:00''"
  "job_published (listed ''B'' JNull) = []"
  "job_published (listed ''C'' (JStr ''2024-02-01T09:00:00'')) = ''2024-02-01T09:00:00''"
  "job_published (listed ''D'' (JStr ''2024-04-01T09:00:00'')) = ''2024-04-01T09:00:00''"
  "job_published (listed ''E'' (JStr ''2024-01-01T09:00:00'')) = ''2024-01-01T09:00:00''"
  "job_published (listed ''A'' (JStr ''2024-03-01T09:00:00Z'')) = ''2024-03-01T09:00:00+00:00''"
  by (simp_all add: listed_def parse_iso_datetime_def date_eval)

lemma listed_key: "dedup_key (listed t raw) = (strip (lower t), ''acme'')"
  by (simp add: listed_def dedup_key_def lower_def lower_char_def strip_def lstrip_def rstrip_def
        is_space_def)

lemma five_listings_ranked:
  "sort_jobs fromisoformat_basic
     (dedup [listed ''A'' (JStr ''2024-03-01T09:00:00''), listed ''B'' JNull,
           listed ''C'' (JStr ''2024-02-01T09:00:00''), listed ''D'' (JStr ''2024-04-01T09:00:00''),
           listed ''E'' (JStr ''2024-01-01T09:00:00'')])
   = Inr [listed ''D'' (JStr ''2024-04-01T09:00:00''), listed ''A'' (JStr ''2024-03-01T09:00:00''),
          listed ''C'' (JStr ''2024-02-01T09:00:00''), listed ''E'' (JStr ''2024-01-01T09:00:00''),
          listed ''B'' JNull]"
  by (simp add: dedup_def listed_key sort_jobs_def sort_key_def listed_published
        lower_def lower_char_def strip_def lstrip_def rstrip_def is_space_def
        dt_less_def dt_fields_def datetime_min_def date_eval)

lemma utc_listings_ranked:
  "sort_jobs fromisoformat_basic
     (dedup [listed ''A'' (JStr ''2024-03-01T09:00:00Z''), listed ''B'' JNull]) = Inl TypeError"
  by (simp add: dedup_def listed_key sort_jobs_def sort_key_def listed_published
        lower_def lower_char_def strip_def lstrip_def rstrip_def is_space_def
        dt_less_def dt_fields_def datetime_min_def date_eval)

section \<open>Published dates and the sort key\<close>

lemma digits10_set: "set (digits10 n) \<subseteq> set ''0123456789''"
proof (induction n rule: digits10.induct)
  case (1 n)
  have d: "digit_char k \<in> set ''0123456789''" if "k < 10" for k
    unfolding digit_char_def using that by (intro nth_mem) simp
  show ?case
  proof (cases "n < 10")
    case True
    then show ?thesis
      using d [of n] by (subst digits10.simps) simp
  next
    case False
    then show ?thesis
      using 1 d [of "n mod 10"] by (subst digits10.simps) simp
  qed
qed

lemma zpad_no_Z: "CHR ''Z'' \<notin> set (zpad k n)"
  using digits10_set [of n] by (auto simp: zpad_def)

lemma isoformat_no_Z: "CHR ''Z'' \<notin> set (isoformat dt)"
  by (auto simp: isoformat_def format_offset_def Let_def zpad_no_Z split: option.splits)

lemma isoformat_nonempty: "isoformat dt \<noteq> []"
  by (simp add: isoformat_def)

lemma parse_iso_datetime_cases:
  "parse_iso_datetime fromiso v = []
   \<or> (\<exists>s dt. fromiso s = Inr dt \<and> parse_iso_datetime fromiso v = isoformat dt)"
  by (auto simp: parse_iso_datetime_def split: json.splits sum.splits)

lemma emitted_published:
  "emitted p fromiso j \<Longrightarrow>
   job_published j = [] \<or> (\<exists>s dt. fromiso s = Inr dt \<and> job_published j = isoformat dt)"
proof -
  assume "emitted p fromiso j"
  then obtain t c l u raw where "j = make_job fromiso (provider_name p) t c l u raw"
    unfolding emitted_def by blast
  then have "job_published j = parse_iso_datetime fromiso raw"
    by simp
  then show ?thesis
    using parse_iso_datetime_cases [of fromiso raw] by simp
qed

text \<open>
  C10. For every record that an adapter returns, \<open>published\<close> is the empty string or the
  \<^verbatim>\<open>isoformat\<close> of a datetime that \<^verbatim>\<open>fromisoformat\<close> has returned. The sort key of a record
  without date is \<^verbatim>\<open>datetime.min\<close>, through the test for the empty string. Where the library
  parses back what it prints (\<^verbatim>\<open>fromisoformat(dt.isoformat())\<close> is \<^verbatim>\<open>dt\<close> for every \<^verbatim>\<open>dt\<close> that
  \<^verbatim>\<open>fromisoformat\<close> returns), the sort key of a dated record is that datetime: the parse in
  \<^verbatim>\<open>sort_key\<close> succeeds and its \<^verbatim>\<open>except\<close> branch is not taken.
\<close>

theorem published_parses_back:
  assumes "snd (fetch_jobs p fromiso w) = Inr jobs"
    and "j \<in> set jobs"
  shows "(job_published j = [] \<or> (\<exists>s dt. fromiso s = Inr dt \<and> job_published j = isoformat dt))
         \<and> (job_published j = [] \<longrightarrow> sort_key fromiso j = datetime_min)
         \<and> ((\<forall>s dt. fromiso s = Inr dt \<longrightarrow> fromiso (isoformat dt) = Inr dt) \<longrightarrow>
              job_published j \<noteq> [] \<longrightarrow>
              (\<exists>dt. job_published j = isoformat dt
                    \<and> fromiso (str_replace CHR ''Z'' ''+00:00'' (job_published j)) = Inr dt
                    \<and> sort_key fromiso j = dt))"
proof -
  from assms obtain item where "item_body p fromiso item = Inr (Some j)"
    using fetch_jobs_mem by blast
  then have "emitted p fromiso j"
    by (rule item_body_emitted)
  then have c: "job_published j = [] \<or> (\<exists>s dt. fromiso s = Inr dt \<and> job_published j = isoformat dt)"
    by (rule emitted_published)
  have "\<exists>dt. job_published j = isoformat dt
            \<and> fromiso (str_replace CHR ''Z'' ''+00:00'' (job_published j)) = Inr dt
            \<and> sort_key fromiso j = dt"
    if r: "\<forall>s dt. fromiso s = Inr dt \<longrightarrow> fromiso (isoformat dt) = Inr dt"
      and n: "job_published j \<noteq> []"
  proof -
    from c n obtain s dt where p: "fromiso s = Inr dt" "job_published j = isoformat dt"
      by blast
    have "str_replace CHR ''Z'' ''+00:00'' (isoformat dt) = isoformat dt"
      by (simp add: str_replace_absent isoformat_no_Z)
    moreover have "fromiso (isoformat dt) = Inr dt"
      using r p(1) by blast
    ultimately show ?thesis
      using p n by (auto simp: sort_key_def)
  qed
  then show ?thesis
    using c by (auto simp: sort_key_def)
qed

theorem published_parses_back_witness:
  "snd (fetch_jobs Remotive fromisoformat_basic (only_remotive (Some utc_listings)))
       = Inr [listed ''A'' (JStr ''2024-03-01T09:00:00Z''), listed ''B'' JNull]
   \<and> fromisoformat_basic ''2024-03-01T09:00:00+00:00''
       = Inr \<lparr>year = 2024, month = 3, day = 1, hour = 9, minute = 0, second = 0, microsecond = 0,
              utcoffset = Some 0\<rparr>
   \<and> fromisoformat_basic
         (isoformat \<lparr>year = 2024, month = 3, day = 1, hour = 9, minute = 0, second = 0,
                      microsecond = 0, utcoffset = Some 0\<rparr>)
       = Inr \<lparr>year = 2024, month = 3, day = 1, hour = 9, minute = 0, second = 0, microsecond = 0,
              utcoffset = Some 0\<rparr>
   \<and> job_published (listed ''A'' (JStr ''2024-03-01T09:00:00Z'')) = ''2024-03-01T09:00:00+00:00''
   \<and> sort_key fromisoformat_basic (listed ''A'' (JStr ''2024-03-01T09:00:00Z''))
       = \<lparr>year = 2024, month = 3, day = 1, hour = 9, minute = 0, second = 0, microsecond = 0,
          utcoffset = Some 0\<rparr>
   \<and> job_published (listed ''B'' JNull) = []
   \<and> sort_key fromisoformat_basic (listed ''B'' JNull) = datetime_min"
proof -
  have r: "\<forall>s dt. fromisoformat_basic s = Inr dt \<longrightarrow> fromisoformat_basic (isoformat dt) = Inr dt"
    using fromisoformat_basic_valid fromisoformat_basic_isoformat by blast
  have f: "snd (fetch_jobs Remotive fromisoformat_basic (only_remotive (Some utc_listings)))
       = Inr [listed ''A'' (JStr ''2024-03-01T09:00:00Z''), listed ''B'' JNull]"
    by (simp add: utc_listings_fetched)
  have a: "listed ''A'' (JStr ''2024-03-01T09:00:00Z'')
             \<in> set [listed ''A'' (JStr ''2024-03-01T09:00:00Z''), listed ''B'' JNull]"
    and b: "listed ''B'' JNull \<in> set [listed ''A'' (JStr ''2024-03-01T09:00:00Z''), listed ''B'' JNull]"
    by simp_all
  show ?thesis
    using r f published_parses_back [OF f a] published_parses_back [OF f b]
    by (auto simp: listed_published isoformat_nonempty sort_key_def date_eval)
qed

section \<open>Records and credentials\<close>




lemma usajobs_item_example: "usajobs_item fromisoformat_basic usajobs_item_json = Inr (Some usajob)"
  by (simp add: usajobs_item_def usajobs_item_json_def usajob_def first_or_def adapter_eval)



text \<open>
  C7. An adapter that requires credentials (Adzuna, JSearch, Careerjet, The Muse) returns the
  empty list and issues no request as soon as one of its variables is absent from the
  environment; with all of them set, an adapter issues exactly its one request. USAJobs
  requires none and always issues its request.
\<close>

theorem missing_credentials_no_call:
  "(key \<in> set (credentials p) \<and> env w key = None \<longrightarrow> fetch_jobs p fromiso w = ([], Inr []))
   \<and> ((\<forall>key\<in>set (credentials p). \<not> unset (env w key)) \<longrightarrow>
        fst (fetch_jobs p fromiso w) = [provider_request p w])
   \<and> credentials USAJobs = []
   \<and> fst (fetch_usajobs fromiso w) = [usajobs_request w]"
proof -
  have "fst (fetch_jobs p fromiso w) = [provider_request p w]"
    if "\<forall>key\<in>set (credentials p). \<not> unset (env w key)"
    using that
    by (cases p)
       (auto simp: fetch_remotive_jobs_def fetch_adzuna_jobs_def fetch_jsearch_jobs_def
          fetch_careerjet_jobs_def fetch_themuse_jobs_def fetch_usajobs_def split: option.splits)
  then show ?thesis
    using fetch_jobs_no_credentials [of key p w fromiso] fetch_jobs_calls [of USAJobs fromiso w]
    by auto
qed


theorem missing_credentials_no_call_witness:
  "''ADZUNA_APP_KEY'' \<in> set (credentials Adzuna)
   \<and> env (with_keys [(''ADZUNA_APP_ID'', ''id'')]) ''ADZUNA_APP_KEY'' = None
   \<and> fetch_jobs Adzuna fromisoformat_basic (with_keys [(''ADZUNA_APP_ID'', ''id'')]) = ([], Inr [])
   \<and> credentials TheMuse = [''THEMUSE_API_KEY'']
   \<and> \<not> unset (env (with_keys [(''THEMUSE_API_KEY'', ''k'')]) ''THEMUSE_API_KEY'')
   \<and> fst (fetch_jobs TheMuse fromisoformat_basic (with_keys [(''THEMUSE_API_KEY'', ''k'')]))
       = [themuse_request (with_keys [(''THEMUSE_API_KEY'', ''k'')])]
   \<and> fst (fetch_usajobs fromisoformat_basic (with_keys [])) = [usajobs_request (with_keys [])]"
  using missing_credentials_no_call [of "''ADZUNA_APP_KEY''" Adzuna
          "with_keys [(''ADZUNA_APP_ID'', ''id'')]" fromisoformat_basic]
    missing_credentials_no_call [of "''THEMUSE_API_KEY''" TheMuse
          "with_keys [(''THEMUSE_API_KEY'', ''k'')]" fromisoformat_basic]
    missing_credentials_no_call [of "''x''" USAJobs "with_keys []" fromisoformat_basic]
  by (simp add: with_keys_def unset_def)

section \<open>Failures, truncation and the sort\<close>

text \<open>
  C1, as the code has it. The \<^verbatim>\<open>try\<close> block of an adapter holds the request and the status
  check only: it takes the \<^verbatim>\<open>except\<close> branch exactly when the request raises or the status is
  400 to 599, and the adapter then returns the empty list. When an adapter fails in this way
  and the others return their records, \<^const>\<open>normalize_jobs\<close> ranks the records of the others.
\<close>

theorem transport_failure_contained:
  "(try_get w req = None) =
     (http_get w req = None
      \<or> (\<exists>r. http_get w req = Some r \<and> 400 \<le> status_code r \<and> status_code r < 600))
   \<and> (try_get w (provider_request p w) = None \<longrightarrow> snd (fetch_jobs p fromiso w) = Inr [])
   \<and> (try_get w (provider_request p w) = None
        \<and> (\<forall>q. q \<noteq> p \<longrightarrow> snd (fetch_jobs q fromiso w) = Inr (recs q)) \<longrightarrow>
        snd (normalize_jobs fromiso w limit_arg) =
          rank_jobs fromiso (concat (map (\<lambda>q. if q = p then [] else recs q) providers))
            (limit_of limit_arg))"
proof -
  have "snd (normalize_jobs fromiso w limit_arg) =
          rank_jobs fromiso (concat (map (\<lambda>q. if q = p then [] else recs q) providers))
            (limit_of limit_arg)"
    if "try_get w (provider_request p w) = None"
      and "\<forall>q. q \<noteq> p \<longrightarrow> snd (fetch_jobs q fromiso w) = Inr (recs q)"
  proof -
    have "snd (fetch_jobs q fromiso w) = Inr (if q = p then [] else recs q)" for q
      using that fetch_jobs_failed [of w p fromiso] by simp
    then have "merged fromiso w = Inr (concat (map (\<lambda>q. if q = p then [] else recs q) providers))"
      by (rule merged_all)
    then show ?thesis
      by (simp add: normalize_jobs_snd)
  qed
  then show ?thesis
    using try_get_None [of w req] fetch_jobs_failed [of w p fromiso] by blast
qed

lemma usajob_published: "job_published usajob = ''2024-05-01T00:00:00''"
  by (simp add: usajob_def parse_iso_datetime_def date_eval)

lemma remotive_down_usajobs:
  "snd (fetch_usajobs fromisoformat_basic remotive_down) = Inr [usajob]"
  by (simp add: fetch_usajobs_def remotive_down_def usajobs_request_def remotive_request_def
        usajobs_listing_def usajobs_items_def usajobs_item_example getenv_def
        unset_def adapter_eval)

theorem transport_failure_contained_witness:
  "http_get remotive_down remotive_request = Some \<lparr>status_code = 503, body_json = None\<rparr>
   \<and> try_get remotive_down (provider_request Remotive remotive_down) = None
   \<and> snd (fetch_jobs Remotive fromisoformat_basic remotive_down) = Inr []
   \<and> snd (fetch_jobs Adzuna fromisoformat_basic remotive_down) = Inr []
   \<and> snd (fetch_jobs JSearch fromisoformat_basic remotive_down) = Inr []
   \<and> snd (fetch_jobs Careerjet fromisoformat_basic remotive_down) = Inr []
   \<and> snd (fetch_jobs TheMuse fromisoformat_basic remotive_down) = Inr []
   \<and> snd (fetch_jobs USAJobs fromisoformat_basic remotive_down) = Inr [usajob]
   \<and> snd (normalize_jobs fromisoformat_basic remotive_down None) = Inr [usajob]"
proof -
  have h: "http_get remotive_down remotive_request = Some \<lparr>status_code = 503, body_json = None\<rparr>"
    by (simp add: remotive_down_def)
  then have t: "try_get remotive_down (provider_request Remotive remotive_down) = None"
    by (simp add: try_get_def raise_for_status_def)
  have o: "\<forall>q. q \<noteq> Remotive \<longrightarrow>
         snd (fetch_jobs q fromisoformat_basic remotive_down)
           = Inr (if q = USAJobs then [usajob] else [])"
  proof (intro allI impI)
    fix q :: provider
    assume "q \<noteq> Remotive"
    then show "snd (fetch_jobs q fromisoformat_basic remotive_down)
                 = Inr (if q = USAJobs then [usajob] else [])"
    proof (cases q)
      case USAJobs
      then show ?thesis by (simp add: remotive_down_usajobs)
    qed (simp_all add: fetch_adzuna_jobs_def fetch_jsearch_jobs_def
            fetch_careerjet_jobs_def fetch_themuse_jobs_def unset_def remotive_down_def)
  qed
  have r: "rank_jobs fromisoformat_basic [usajob] 50 = Inr [usajob]"
    by (simp add: rank_jobs_def dedup_def sort_jobs_def slice_to_def)
  show ?thesis
    using h t o r
      transport_failure_contained [of remotive_down remotive_request Remotive fromisoformat_basic
        "\<lambda>q. if q = USAJobs then [usajob] else []" None]
      o [rule_format, of Adzuna] o [rule_format, of JSearch] o [rule_format, of Careerjet]
      o [rule_format, of TheMuse] o [rule_format, of USAJobs]
    by (simp add: providers_def limit_of_def)
qed

text \<open>
  The claim as stated fails for a malformed payload and for the other statuses: the body is
  decoded and the fields are read after the \<^verbatim>\<open>try\<close> block. A 200 response whose body is not
  JSON raises out of the adapter and out of \<^const>\<open>normalize_jobs\<close>, and so does a body that
  is a number, which has no \<^verbatim>\<open>get\<close>; with status 304 the status check passes and the decoding
  raises, while 404 gives the empty list.
\<close>

theorem malformed_payload_counterexample:
  "http_get (only_remotive None) remotive_request = Some \<lparr>status_code = 200, body_json = None\<rparr>
   \<and> snd (fetch_remotive_jobs fromisoformat_basic (only_remotive None)) = Inl JSONDecodeError
   \<and> snd (normalize_jobs fromisoformat_basic (only_remotive None) None) = Inl JSONDecodeError
   \<and> snd (fetch_remotive_jobs fromisoformat_basic (only_remotive (Some (JInt 0))))
       = Inl AttributeError
   \<and> snd (normalize_jobs fromisoformat_basic (only_remotive (Some (JInt 0))) None)
       = Inl AttributeError
   \<and> snd (fetch_remotive_jobs fromisoformat_basic (remotive_status 304)) = Inl JSONDecodeError
   \<and> snd (fetch_remotive_jobs fromisoformat_basic (remotive_status 404)) = Inr []"
  by (simp add: normalize_jobs_snd only_remotive_merged)
     (simp add: fetch_remotive_jobs_def only_remotive_def remotive_status_def remotive_items_def
        adapter_eval)

text \<open>
  C8, as the code has it. What \<^const>\<open>normalize_jobs\<close> returns is the slice \<^verbatim>\<open>[:limit]\<close> of the
  deduplicated, sorted list, with 50 for a \<^verbatim>\<open>limit\<close> left out. For a \<^verbatim>\<open>limit\<close> that is not
  negative this is the initial segment of at most \<^verbatim>\<open>limit\<close> records; a negative \<^verbatim>\<open>limit\<close> drops
  that many records from the end.
\<close>

theorem normalize_jobs_truncates:
  "(snd (normalize_jobs fromiso w limit_arg) = Inr out \<longrightarrow>
      (\<exists>jobs unique_jobs.
          merged fromiso w = Inr jobs \<and> sort_jobs fromiso (dedup jobs) = Inr unique_jobs
          \<and> out = slice_to unique_jobs (limit_of limit_arg)
          \<and> (0 \<le> limit_of limit_arg \<longrightarrow>
                out = take (nat (limit_of limit_arg)) unique_jobs
                \<and> int (length out) \<le> limit_of limit_arg)
          \<and> (limit_of limit_arg < 0 \<longrightarrow>
                out = take (length unique_jobs - nat (- limit_of limit_arg)) unique_jobs)))
   \<and> limit_of None = 50"
proof -
  have "\<exists>jobs unique_jobs.
          merged fromiso w = Inr jobs \<and> sort_jobs fromiso (dedup jobs) = Inr unique_jobs
          \<and> out = slice_to unique_jobs (limit_of limit_arg)
          \<and> (0 \<le> limit_of limit_arg \<longrightarrow>
                out = take (nat (limit_of limit_arg)) unique_jobs
                \<and> int (length out) \<le> limit_of limit_arg)
          \<and> (limit_of limit_arg < 0 \<longrightarrow>
                out = take (length unique_jobs - nat (- limit_of limit_arg)) unique_jobs)"
    if "snd (normalize_jobs fromiso w limit_arg) = Inr out"
  proof -
    from that obtain jobs unique_jobs where m: "merged fromiso w = Inr jobs"
      and s: "sort_jobs fromiso (dedup jobs) = Inr unique_jobs"
      and o: "out = slice_to unique_jobs (limit_of limit_arg)"
      by (auto simp: normalize_jobs_snd rank_jobs_def ebind_Inr_iff)
    have "out = take (nat (limit_of limit_arg)) unique_jobs \<and> int (length out) \<le> limit_of limit_arg"
      if "0 \<le> limit_of limit_arg"
      using that o by (simp add: slice_to_def)
    moreover have "out = take (length unique_jobs - nat (- limit_of limit_arg)) unique_jobs"
      if "limit_of limit_arg < 0"
      using that o by (simp add: slice_to_def)
    ultimately show ?thesis
      using m s o by blast
  qed
  then show ?thesis
    by (simp add: limit_of_def)
qed

lemma five_listings_normalized:
  "snd (normalize_jobs fromisoformat_basic (only_remotive (Some five_listings)) limit_arg)
     = Inr (slice_to
         [listed ''D'' (JStr ''2024-04-01T09:00:00''), listed ''A'' (JStr ''2024-03-01T09:00:00''),
          listed ''C'' (JStr ''2024-02-01T09:00:00''), listed ''E'' (JStr ''2024-01-01T09:00:00''),
          listed ''B'' JNull] (limit_of limit_arg))"
  by (simp add: normalize_jobs_snd only_remotive_merged five_listings_fetched rank_jobs_def
        five_listings_ranked)

theorem normalize_jobs_truncates_witness:
  "snd (normalize_jobs fromisoformat_basic (only_remotive (Some five_listings)) (Some 2))
     = Inr [listed ''D'' (JStr ''2024-04-01T09:00:00''), listed ''A'' (JStr ''2024-03-01T09:00:00'')]
   \<and> merged fromisoformat_basic (only_remotive (Some five_listings))
       = Inr [listed ''A'' (JStr ''2024-03-01T09:00:00''), listed ''B'' JNull,
              listed ''C'' (JStr ''2024-02-01T09:00:00''), listed ''D'' (JStr ''2024-04-01T09:00:00''),
              listed ''E'' (JStr ''2024-01-01T09:00:00'')]
   \<and> (0::int) \<le> limit_of (Some 2)
   \<and> int (length [listed ''D'' (JStr ''2024-04-01T09:00:00''),
                   listed ''A'' (JStr ''2024-03-01T09:00:00'')]) \<le> limit_of (Some 2)"
  using normalize_jobs_truncates [of fromisoformat_basic "only_remotive (Some five_listings)"
          "Some 2" "[listed ''D'' (JStr ''2024-04-01T09:00:00''), listed ''A'' (JStr ''2024-03-01T09:00:00'')]"]
  by (simp add: five_listings_normalized only_remotive_merged five_listings_fetched
        slice_to_def limit_of_def)

text \<open>
  The claim as stated fails for a negative \<^verbatim>\<open>limit\<close>: of five records, \<^verbatim>\<open>limit = -1\<close> returns
  four.
\<close>

theorem negative_limit_counterexample:
  "snd (normalize_jobs fromisoformat_basic (only_remotive (Some five_listings)) (Some (- 1)))
     = Inr [listed ''D'' (JStr ''2024-04-01T09:00:00''), listed ''A'' (JStr ''2024-03-01T09:00:00''),
            listed ''C'' (JStr ''2024-02-01T09:00:00''), listed ''E'' (JStr ''2024-01-01T09:00:00'')]
   \<and> \<not> int (length [listed ''D'' (JStr ''2024-04-01T09:00:00''),
                     listed ''A'' (JStr ''2024-03-01T09:00:00''),
                     listed ''C'' (JStr ''2024-02-01T09:00:00''),
                     listed ''E'' (JStr ''2024-01-01T09:00:00'')]) \<le> - 1"
  by (simp add: five_listings_normalized slice_to_def limit_of_def)

text \<open>
  C3. The sort fails where the claim, and the comment in the code, let the records without date
  sink to the bottom: Remotive lists a job dated \<^verbatim>\<open>2024-03-01T09:00:00Z\<close> and an undated one.
  The first is published as \<^verbatim>\<open>2024-03-01T09:00:00+00:00\<close>, an aware datetime; the key of the
  second is \<^verbatim>\<open>datetime.min\<close>, a naive one; their comparison raises \<^verbatim>\<open>TypeError\<close>, and
  \<^const>\<open>normalize_jobs\<close> raises with it.
\<close>

theorem sort_raises_on_aware_and_undated:
  "snd (fetch_remotive_jobs fromisoformat_basic (only_remotive (Some utc_listings)))
     = Inr [listed ''A'' (JStr ''2024-03-01T09:00:00Z''), listed ''B'' JNull]
   \<and> job_published (listed ''A'' (JStr ''2024-03-01T09:00:00Z'')) = ''2024-03-01T09:00:00+00:00''
   \<and> job_published (listed ''B'' JNull) = []
   \<and> sort_jobs fromisoformat_basic
        [listed ''A'' (JStr ''2024-03-01T09:00:00Z''), listed ''B'' JNull] = Inl TypeError
   \<and> snd (normalize_jobs fromisoformat_basic (only_remotive (Some utc_listings)) None)
       = Inl TypeError"
proof -
  have d: "dedup [listed ''A'' (JStr ''2024-03-01T09:00:00Z''), listed ''B'' JNull]
             = [listed ''A'' (JStr ''2024-03-01T09:00:00Z''), listed ''B'' JNull]"
    by (simp add: dedup_def listed_key lower_def lower_char_def strip_def lstrip_def rstrip_def
          is_space_def)
  show ?thesis
    using utc_listings_ranked
    by (simp add: d normalize_jobs_snd only_remotive_merged utc_listings_fetched rank_jobs_def
          listed_published)
qed

section \<open>Identifiers\<close>

lemma is_space_lower_char [simp]: "is_space (lower_char c) = is_space c"
proof -
  have "of_char (char_of (of_char c + 32 :: nat)) = (of_char c + 32 :: nat)" if "(of_char c :: nat) \<le> 222"
    using that by simp
  then show ?thesis
    by (auto simp: is_space_def lower_char_def Let_def)
qed

lemma lower_char_idem [simp]: "lower_char (lower_char c) = lower_char c"
proof -
  have "of_char (char_of (of_char c + 32 :: nat)) = (of_char c + 32 :: nat)" if "(of_char c :: nat) \<le> 222"
    using that by simp
  then show ?thesis
    by (auto simp: lower_char_def Let_def)
qed

lemma lower_idem [simp]: "lower (lower s) = lower s"
  by (simp add: lower_def)

lemma lower_dropWhile: "lower (dropWhile is_space s) = dropWhile is_space (lower s)"
  by (induction s) (auto simp: lower_def)

lemma lower_lstrip: "lower (lstrip s) = lstrip (lower s)"
  by (simp add: lstrip_def lower_dropWhile)

lemma lower_rev: "lower (rev s) = rev (lower s)"
  by (simp add: lower_def rev_map)

lemma lower_rstrip: "lower (rstrip s) = rstrip (lower s)"
  by (simp add: rstrip_def lower_rev lower_dropWhile)

lemma colon_not_space [simp]: "\<not> is_space CHR '':''"
  by (simp add: is_space_def)

lemma strip_colon:
  "strip (s @ '':'' @ t @ '':'' @ c) = lstrip s @ '':'' @ t @ '':'' @ rstrip c"
proof -
  have "lstrip (s @ '':'' @ t @ '':'' @ c) = lstrip s @ '':'' @ t @ '':'' @ c"
    by (simp add: lstrip_def dropWhile_append3)
  moreover have "rstrip (lstrip s @ '':'' @ t @ '':'' @ c) = lstrip s @ '':'' @ t @ '':'' @ rstrip c"
    using dropWhile_append3 [of is_space "CHR '':''" "rev c" "rev t @ '':'' @ rev (lstrip s)"]
    by (simp add: rstrip_def)
  ultimately show ?thesis
    by (simp add: strip_def)
qed

lemma lower_colon [simp]: "lower (CHR '':'' # s) = CHR '':'' # lower s"
  by (simp add: lower_def lower_char_def)

lemma combined_parts:
  "combined title company source
     = lstrip (lower source) @ '':'' @ lower title @ '':'' @ rstrip (lower company)"
  using strip_colon [of "lower source" "lower title" "lower company"]
  by (simp add: combined_def)

lemma lstrip_idem [simp]: "lstrip (lstrip s) = lstrip s"
  by (simp add: lstrip_def)

lemma rstrip_idem [simp]: "rstrip (rstrip s) = rstrip s"
  by (simp add: rstrip_def)

lemma length_md5: "length (md5 msg) = 16"
  by (simp add: md5_def bytes_of_u32_def split: prod.splits)

lemma length_hexdigest: "length (hexdigest bs) = 2 * length bs"
  by (induction bs) (simp_all add: hexdigest_def)

lemma hex_digit_set: "n < 16 \<Longrightarrow> hex_digit n \<in> set ''0123456789abcdef''"
  unfolding hex_digit_def by (intro nth_mem) simp

lemma hexdigest_set: "set (hexdigest bs) \<subseteq> set ''0123456789abcdef''"
proof -
  have "unat b div 16 < 16" "unat b mod 16 < 16" for b :: byte
    using unsigned_less [of b, where 'a = nat] by (simp_all add: div_less_iff_less_mult)
  then have "hex_digit (unat b div 16) \<in> set ''0123456789abcdef''"
    "hex_digit (unat b mod 16) \<in> set ''0123456789abcdef''" for b :: byte
    by (simp_all only: hex_digit_set)
  then show ?thesis
    unfolding hexdigest_def by (induction bs) auto
qed

text \<open>
  C6, as the code has it. The identifier is the first 16 hexadecimal digits of the MD5 of the
  string \<^verbatim>\<open>source:title:company\<close>, lower-cased and trimmed as a whole: it is a function of the
  three arguments, 16 characters long. Trimming reaches the two ends of the built string only,
  so the identifier is unchanged when the source is trimmed on the left and the company on
  the right. For arguments of ASCII characters it is unchanged when each argument is
  lower-cased.
\<close>

theorem generate_job_id_combined:
  "generate_job_id title company source
     = take 16 (hexdigest (md5 (encode (strip (lower (source @ '':'' @ title @ '':'' @ company))))))
   \<and> length (generate_job_id title company source) = 16
   \<and> set (generate_job_id title company source) \<subseteq> set ''0123456789abcdef''
   \<and> generate_job_id title (rstrip company) (lstrip source)
       = generate_job_id title company source
   \<and> ((\<forall>ch\<in>set (source @ title @ company). (of_char ch :: nat) < 128) \<longrightarrow>
        generate_job_id (lower title) (lower company) (lower source)
          = generate_job_id title company source)"
proof -
  have "combined title (rstrip company) (lstrip source) = combined title company source"
    by (simp add: combined_parts lower_lstrip lower_rstrip)
  moreover have "combined (lower title) (lower company) (lower source) = combined title company source"
    by (simp add: combined_parts)
  moreover have "set (take 16 (hexdigest bs)) \<subseteq> set ''0123456789abcdef''" for bs
    using hexdigest_set [of bs] set_take_subset [of 16 "hexdigest bs"] by blast
  ultimately show ?thesis
    by (simp add: generate_job_id_def combined_def length_hexdigest length_md5)
qed

theorem generate_job_id_combined_witness:
  "list_all (\<lambda>ch. (of_char ch :: nat) < 128) (''Remotive'' @ ''Backend Developer'' @ ''Acme'')
   \<and> generate_job_id ''backend developer'' ''acme'' ''remotive''
       = generate_job_id ''Backend Developer'' ''Acme'' ''Remotive''
   \<and> generate_job_id ''Backend Developer'' ''Acme'' ''Remotive''
       = generate_job_id ''Backend Developer'' (rstrip ''Acme  '') (lstrip '' Remotive'')"
proof -
  have a: "\<forall>ch\<in>set (''Remotive'' @ ''Backend Developer'' @ ''Acme''). (of_char ch :: nat) < 128"
    by simp
  have l: "lower ''Backend Developer'' = ''backend developer''" "lower ''Acme'' = ''acme''"
    "lower ''Remotive'' = ''remotive''"
    by (simp_all add: lower_def lower_char_def)
  have s: "rstrip ''Acme  '' = ''Acme''" "lstrip '' Remotive'' = ''Remotive''"
    by (simp_all add: rstrip_def lstrip_def is_space_def)
  show ?thesis
    using a generate_job_id_combined [of "''Backend Developer''" "''Acme''" "''Remotive''"]
    by (simp add: l s)
qed

lemma id_raw: "generate_job_id '' Dev '' ''Acme'' ''Remotive'' = ''1e8305309135805d''"
  by code_simp

lemma id_normalized:
  "generate_job_id (strip (lower '' Dev '')) (strip (lower ''Acme'')) (strip (lower ''Remotive''))
     = ''d8bc6c7c788d1197''"
  by code_simp

lemma md5_abc: "hexdigest (md5 (encode ''abc'')) = ''900150983cd24fb0d6963f7d28e17f72''"
  by code_simp

text \<open>
  The claim as stated fails where an argument has whitespace that is not at an end of the built
  string: for the title \<^verbatim>\<open>" Dev "\<close> the hashed string is \<^verbatim>\<open>remotive: dev :acme\<close>, and with the
  arguments lower-cased and trimmed it is \<^verbatim>\<open>remotive:dev:acme\<close>.
\<close>

theorem trimmed_arguments_counterexample:
  "generate_job_id (strip (lower '' Dev '')) (strip (lower ''Acme'')) (strip (lower ''Remotive''))
     \<noteq> generate_job_id '' Dev '' ''Acme'' ''Remotive''"
  by (simp add: id_raw id_normalized)

end
